theory Spec2Isabelle
  imports Complex_Main
begin

section \<open>Beam-column simulator: data model\<close>

text \<open>
  A shallow embedding of \<^verbatim>\<open>physics/beam_column.py\<close>. Python floats are read as
  real numbers: rounding, infinities and NaN are outside the model, so a division of
  NumPy values by zero (which yields inf or nan and no exception) has no counterpart
  here, and statements that need the quotient carry the hypothesis that the divisor is
  not zero. A division of two plain Python floats by zero raises, and is a branch of
  the model. Exceptions are values of the type \<open>error\<close>.
\<close>

datatype error =
    ValueError string
  | ZeroDivisionError
  | IndexError
  | RuntimeError string

text \<open>The state vector \<open>y = [v, v', M, V]\<close> of the ODE system.\<close>

type_synonym state = "real \<times> real \<times> real \<times> real"

definition deflection :: "state \<Rightarrow> real" where
  "deflection y = (case y of (v, dv_dx, M, V) \<Rightarrow> v)"

definition slope :: "state \<Rightarrow> real" where
  "slope y = (case y of (v, dv_dx, M, V) \<Rightarrow> dv_dx)"

definition moment :: "state \<Rightarrow> real" where
  "moment y = (case y of (v, dv_dx, M, V) \<Rightarrow> M)"

definition shear :: "state \<Rightarrow> real" where
  "shear y = (case y of (v, dv_dx, M, V) \<Rightarrow> V)"

record BeamSection =
  width :: real
  height :: real

definition area :: "BeamSection \<Rightarrow> real" where
  "area sec = width sec * height sec"

definition moment_of_inertia :: "BeamSection \<Rightarrow> real" where
  "moment_of_inertia sec = width sec * height sec ^ 3 / 12"

definition max_distance_from_neutral :: "BeamSection \<Rightarrow> real" where
  "max_distance_from_neutral sec = height sec / 2"

record Material =
  E :: real
  density :: real
  poisson_ratio :: real

record PointLoad =
  magnitude :: real
  position :: real
  as_fraction :: bool
  direction :: string

text \<open>
  The fields \<open>length\<close> and \<open>section\<close> of the Python class are \<open>length_beam\<close> and
  \<open>section_beam\<close> here. After construction \<open>point_loads\<close> is always a list.
\<close>

record BeamColumnProblem =
  length_beam :: real
  section_beam :: BeamSection
  material :: Material
  axial_load :: real
  lateral_load :: real
  point_load :: real
  point_loads :: "PointLoad list"
  orientation :: string
  include_self_weight :: bool
  g :: real
  end_condition :: string

text \<open>
  The dataclass constructor followed by \<open>__post_init__\<close>. The argument
  \<open>point_loads_arg\<close> is \<open>None\<close> when the caller gives no list.
\<close>

definition post_init_point_loads :: "real \<Rightarrow> real \<Rightarrow> PointLoad list option \<Rightarrow> PointLoad list" where
  "post_init_point_loads length_arg point_load_arg point_loads_arg =
     (case point_loads_arg of
        None \<Rightarrow>
          (if point_load_arg \<noteq> 0
           then [\<lparr>magnitude = point_load_arg, position = length_arg,
                  as_fraction = False, direction = ''downward''\<rparr>]
           else [])
      | Some pls \<Rightarrow> pls)"

definition new_BeamColumnProblem ::
  "real \<Rightarrow> BeamSection \<Rightarrow> Material \<Rightarrow> real \<Rightarrow> real \<Rightarrow> real \<Rightarrow> PointLoad list option \<Rightarrow>
   string \<Rightarrow> bool \<Rightarrow> real \<Rightarrow> string \<Rightarrow> BeamColumnProblem" where
  "new_BeamColumnProblem length_arg section_arg material_arg axial_load_arg lateral_load_arg
     point_load_arg point_loads_arg orientation_arg include_self_weight_arg g_arg
     end_condition_arg =
     \<lparr>length_beam = length_arg, section_beam = section_arg, material = material_arg,
      axial_load = axial_load_arg, lateral_load = lateral_load_arg,
      point_load = point_load_arg,
      point_loads = post_init_point_loads length_arg point_load_arg point_loads_arg,
      orientation = orientation_arg, include_self_weight = include_self_weight_arg,
      g = g_arg, end_condition = end_condition_arg\<rparr>"

definition self_weight_load :: "BeamColumnProblem \<Rightarrow> real" where
  "self_weight_load p =
     (if \<not> include_self_weight p then 0
      else area (section_beam p) * density (material p) * g p)"

definition total_lateral_load :: "BeamColumnProblem \<Rightarrow> real" where
  "total_lateral_load p =
     (if orientation p = ''vertical'' \<and> include_self_weight p
      then lateral_load p + self_weight_load p
      else lateral_load p)"

definition get_total_point_load :: "BeamColumnProblem \<Rightarrow> real" where
  "get_total_point_load p = sum_list (map magnitude (point_loads p))"

section \<open>The solver object\<close>

text \<open>The attributes \<open>self.X\<close> of \<open>BeamColumnSolver\<close> are the fields \<open>self_X\<close>.\<close>

record BeamColumnSolver =
  self_problem :: BeamColumnProblem
  self_EI :: real
  self_P :: real
  self_q :: real
  self_point_loads :: "PointLoad list"
  self_L :: real
  self_A :: real
  self_E :: real
  self_c :: real
  self_alpha :: real

text \<open>
  \<open>__init__\<close>. The quotient \<open>self.P / self.EI\<close> is a division of Python floats and
  raises when \<open>EI\<close> is zero; it is evaluated only when \<open>P > 0\<close>.
\<close>

definition init_BeamColumnSolver :: "BeamColumnProblem \<Rightarrow> error + BeamColumnSolver" where
  "init_BeamColumnSolver problem =
     (let EI = E (material problem) * moment_of_inertia (section_beam problem);
          P = axial_load problem
      in if P > 0 \<and> EI = 0 then Inl ZeroDivisionError
         else Inr \<lparr>self_problem = problem,
                   self_EI = EI,
                   self_P = P,
                   self_q = total_lateral_load problem,
                   self_point_loads = point_loads problem,
                   self_L = length_beam problem,
                   self_A = area (section_beam problem),
                   self_E = E (material problem),
                   self_c = max_distance_from_neutral (section_beam problem),
                   self_alpha = (if P > 0 then sqrt (P / EI) else 0)\<rparr>)"

definition load_sign :: "PointLoad \<Rightarrow> real" where
  "load_sign pl = (if direction pl = ''downward'' then 1 else -1)"

definition resolved_position :: "BeamColumnSolver \<Rightarrow> PointLoad \<Rightarrow> real" where
  "resolved_position s pl =
     (if \<not> as_fraction pl then position pl else position pl * self_L s)"

section \<open>The ODE system\<close>

definition beam_column_odes :: "BeamColumnSolver \<Rightarrow> state \<Rightarrow> real \<Rightarrow> state" where
  "beam_column_odes s y x =
     (case y of (v, dv_dx, M, V) \<Rightarrow>
        (let dv = dv_dx;
             d2v = M / self_EI s;
             dM = V;
             dV = - self_q s
         in (dv, d2v, dM, dV)))"

section \<open>Library functions taken as parameters\<close>

text \<open>
  \<open>scipy.integrate.odeint\<close>, \<open>scipy.optimize.brentq\<close> and \<open>scipy.optimize.fsolve\<close> are
  not code of this program. Every function that calls one of them takes it as an
  argument; each may raise. The callbacks given to the root finders may raise too.
\<close>

type_synonym odeint_fn = "(state \<Rightarrow> real \<Rightarrow> state) \<Rightarrow> state \<Rightarrow> real list \<Rightarrow> error + state list"

type_synonym brentq_fn = "(real \<Rightarrow> error + real) \<Rightarrow> real \<Rightarrow> real \<Rightarrow> real \<Rightarrow> error + real"

type_synonym fsolve_fn =
  "(real \<times> real \<Rightarrow> error + real \<times> real) \<Rightarrow> real \<times> real \<Rightarrow> error + real \<times> real"

definition bind_result :: "error + 'a \<Rightarrow> ('a \<Rightarrow> error + 'b) \<Rightarrow> error + 'b" where
  "bind_result r k = (case r of Inl e \<Rightarrow> Inl e | Inr a \<Rightarrow> k a)"

text \<open>\<open>solution[0]\<close> and \<open>solution[-1]\<close>: both raise on an array with no rows.\<close>

definition first_row :: "state list \<Rightarrow> error + state" where
  "first_row solution = (case solution of [] \<Rightarrow> Inl IndexError | r # _ \<Rightarrow> Inr r)"

definition last_row :: "state list \<Rightarrow> error + state" where
  "last_row solution = (if solution = [] then Inl IndexError else Inr (last solution))"

section \<open>Initial shear and the piecewise integrator\<close>

text \<open>\<open>_apply_point_loads\<close>: neither argument is read.\<close>

definition apply_point_loads :: "BeamColumnSolver \<Rightarrow> real \<Rightarrow> real list \<Rightarrow> real" where
  "apply_point_loads s V_initial x_array =
     fold (\<lambda>pl V_init. V_init + load_sign pl * magnitude pl)
       (self_point_loads s) (self_q s * self_L s)"

text \<open>The triples \<open>(pos, magnitude, direction_sign)\<close>, sorted by position (a stable sort).\<close>

definition point_load_positions :: "BeamColumnSolver \<Rightarrow> (real \<times> real \<times> real) list" where
  "point_load_positions s =
     sort_key fst
       (map (\<lambda>pl. (resolved_position s pl, magnitude pl, load_sign pl)) (self_point_loads s))"

text \<open>\<open>sorted(set(segment_boundaries))\<close> is \<open>sort (remdups \<dots>)\<close>.\<close>

definition segment_boundaries :: "BeamColumnSolver \<Rightarrow> real list" where
  "segment_boundaries s =
     sort (remdups
       ([0] @
        map fst (filter (\<lambda>p. 0 < fst p \<and> fst p < self_L s) (point_load_positions s)) @
        [self_L s]))"

text \<open>The inner loop over the point loads at a boundary \<open>x_next\<close>.\<close>

fun apply_jumps :: "(real \<times> real \<times> real) list \<Rightarrow> real \<Rightarrow> state \<Rightarrow> state" where
  "apply_jumps [] x_next current_state = current_state"
| "apply_jumps ((pos, mag, direction_sign) # rest) x_next current_state =
     apply_jumps rest x_next
       (if \<bar>pos - x_next\<bar> < 1 / 10 ^ 9
        then (case current_state of (v, dv_dx, M, V) \<Rightarrow> (v, dv_dx, M, V - direction_sign * mag))
        else current_state)"

text \<open>
  The loop over the segments. The index \<open>i\<close> of the source walks the consecutive pairs
  of boundaries, which are the first two elements of the remaining list here;
  \<open>i < len(segment_boundaries) - 2\<close> says that a boundary follows \<open>x_end\<close>.
\<close>

fun segments_loop ::
  "odeint_fn \<Rightarrow> BeamColumnSolver \<Rightarrow> real list \<Rightarrow> real list \<Rightarrow> state \<Rightarrow> state list list \<Rightarrow>
   error + state list list" where
  "segments_loop odeint s x (x_start # x_end # rest) current_state solution_list =
     (let x_segment = filter (\<lambda>xi. x_start \<le> xi \<and> xi \<le> x_end) x
      in if x_segment = []
         then segments_loop odeint s x (x_end # rest) current_state solution_list
         else (case odeint (beam_column_odes s) current_state x_segment of
                 Inl e \<Rightarrow> Inl e
               | Inr segment_solution \<Rightarrow>
                   (case last_row segment_solution of
                      Inl e \<Rightarrow> Inl e
                    | Inr end_state \<Rightarrow>
                        segments_loop odeint s x (x_end # rest)
                          (if rest \<noteq> []
                           then apply_jumps (point_load_positions s) x_end end_state
                           else end_state)
                          (solution_list @ [segment_solution]))))"
| "segments_loop odeint s x boundaries current_state solution_list = Inr solution_list"

definition solve_segmented ::
  "odeint_fn \<Rightarrow> BeamColumnSolver \<Rightarrow> state \<Rightarrow> real list \<Rightarrow> error + state list" where
  "solve_segmented odeint s y0 x =
     (case segments_loop odeint s x (segment_boundaries s) y0 [] of
        Inl e \<Rightarrow> Inl e
      | Inr solution_list \<Rightarrow>
          (let full_solution = (if solution_list \<noteq> [] then concat solution_list else [y0])
           in if length full_solution \<noteq> length x
              then odeint (beam_column_odes s) y0 x
              else Inr full_solution))"

section \<open>The boundary-condition solvers\<close>

text \<open>\<open>try: \<dots> except ValueError: \<dots>\<close> and \<open>try: \<dots> except: \<dots>\<close>.\<close>

definition except_ValueError :: "error + 'a \<Rightarrow> error + 'a \<Rightarrow> error + 'a" where
  "except_ValueError body handler =
     (case body of
        Inr a \<Rightarrow> Inr a
      | Inl e \<Rightarrow> (case e of ValueError msg \<Rightarrow> handler | _ \<Rightarrow> Inl e))"

definition except_any :: "error + 'a \<Rightarrow> error + 'a \<Rightarrow> error + 'a" where
  "except_any body handler = (case body of Inr a \<Rightarrow> Inr a | Inl e \<Rightarrow> handler)"

type_synonym solution = "real list \<times> real list \<times> real list \<times> real list"

text \<open>The last line of every solver: \<open>x, solution[:, 0], solution[:, 2], solution[:, 3]\<close>.\<close>

definition columns :: "real list \<Rightarrow> state list \<Rightarrow> solution" where
  "columns x solution = (x, map deflection solution, map moment solution, map shear solution)"

text \<open>
  The nested functions of the solvers take the variables they close over,
  \<open>x\<close> and \<open>V_initial\<close>, as arguments.
\<close>

definition cantilever_shooting_function ::
  "odeint_fn \<Rightarrow> BeamColumnSolver \<Rightarrow> real list \<Rightarrow> real \<Rightarrow> real \<Rightarrow> error + real" where
  "cantilever_shooting_function odeint s x V_initial initial_slope =
     bind_result (solve_segmented odeint s (0, initial_slope, 0, V_initial) x) (\<lambda>solution.
     bind_result (last_row solution) (\<lambda>r. Inr (deflection r)))"

definition solve_cantilever ::
  "brentq_fn \<Rightarrow> odeint_fn \<Rightarrow> BeamColumnSolver \<Rightarrow> real list \<Rightarrow> error + solution" where
  "solve_cantilever brentq odeint s x =
     (let V_initial = apply_point_loads s 0 x
      in bind_result
           (except_ValueError
              (brentq (cantilever_shooting_function odeint s x V_initial) (-1) 1 (1 / 10 ^ 6))
              (let total_load = self_q s * self_L s + sum_list (map magnitude (self_point_loads s))
               in if 3 * self_EI s = 0 then Inl ZeroDivisionError
                  else Inr (- total_load * self_L s ^ 3 / (3 * self_EI s))))
           (\<lambda>correct_slope.
              bind_result (solve_segmented odeint s (0, correct_slope, 0, V_initial) x)
                (\<lambda>solution. Inr (columns x solution))))"

definition simply_supported_shooting_function ::
  "odeint_fn \<Rightarrow> BeamColumnSolver \<Rightarrow> real list \<Rightarrow> real \<Rightarrow> error + real" where
  "simply_supported_shooting_function odeint s x initial_slope =
     bind_result (odeint (beam_column_odes s) (0, initial_slope, 0, self_q s * self_L s) x)
       (\<lambda>solution. bind_result (last_row solution) (\<lambda>r. Inr (deflection r)))"

definition solve_simply_supported ::
  "brentq_fn \<Rightarrow> odeint_fn \<Rightarrow> BeamColumnSolver \<Rightarrow> real list \<Rightarrow> error + solution" where
  "solve_simply_supported brentq odeint s x =
     bind_result
       (except_ValueError
          (brentq (simply_supported_shooting_function odeint s x) (- (1 / 2)) (1 / 2) (1 / 10 ^ 6))
          (if 24 * self_EI s = 0 then Inl ZeroDivisionError
           else Inr (self_q s * self_L s ^ 3 / (24 * self_EI s))))
       (\<lambda>correct_slope.
          bind_result (odeint (beam_column_odes s) (0, correct_slope, 0, self_q s * self_L s) x)
            (\<lambda>solution. Inr (columns x solution)))"

definition fixed_fixed_shooting_equations ::
  "odeint_fn \<Rightarrow> BeamColumnSolver \<Rightarrow> real list \<Rightarrow> real \<times> real \<Rightarrow> error + real \<times> real" where
  "fixed_fixed_shooting_equations odeint s x params =
     (case params of (initial_slope, initial_moment) \<Rightarrow>
        bind_result
          (odeint (beam_column_odes s) (0, initial_slope, initial_moment, self_q s * self_L s) x)
          (\<lambda>solution. bind_result (last_row solution) (\<lambda>r. Inr (deflection r, slope r))))"

definition solve_fixed_fixed ::
  "fsolve_fn \<Rightarrow> odeint_fn \<Rightarrow> BeamColumnSolver \<Rightarrow> real list \<Rightarrow> error + solution" where
  "solve_fixed_fixed fsolve odeint s x =
     bind_result
       (except_any
          (fsolve (fixed_fixed_shooting_equations odeint s x) (0, 0))
          (Inr (0, - self_q s * self_L s ^ 2 / 12)))
       (\<lambda>correct_params. case correct_params of (initial_slope, initial_moment) \<Rightarrow>
          bind_result
            (odeint (beam_column_odes s) (0, initial_slope, initial_moment, self_q s * self_L s) x)
            (\<lambda>solution. Inr (columns x solution)))"

definition hinged_free_shooting_function ::
  "odeint_fn \<Rightarrow> BeamColumnSolver \<Rightarrow> real list \<Rightarrow> real \<Rightarrow> real \<Rightarrow> error + real" where
  "hinged_free_shooting_function odeint s x V_initial initial_moment =
     bind_result (solve_segmented odeint s (0, 0, initial_moment, V_initial) x) (\<lambda>solution.
     bind_result (first_row solution) (\<lambda>r. Inr (deflection r)))"

definition solve_hinged_free ::
  "brentq_fn \<Rightarrow> odeint_fn \<Rightarrow> BeamColumnSolver \<Rightarrow> real list \<Rightarrow> error + solution" where
  "solve_hinged_free brentq odeint s x =
     (let V_initial = apply_point_loads s 0 x
      in bind_result
           (except_ValueError
              (brentq (hinged_free_shooting_function odeint s x V_initial) (-1) 1 (1 / 10 ^ 6))
              (Inr 0))
           (\<lambda>correct_moment.
              bind_result (solve_segmented odeint s (0, 0, correct_moment, V_initial) x)
                (\<lambda>solution. Inr (columns x solution))))"

definition fixed_hinged_shooting_function ::
  "odeint_fn \<Rightarrow> BeamColumnSolver \<Rightarrow> real list \<Rightarrow> real \<Rightarrow> real \<Rightarrow> error + real" where
  "fixed_hinged_shooting_function odeint s x V_initial initial_slope =
     bind_result (solve_segmented odeint s (0, initial_slope, 0, V_initial) x) (\<lambda>solution.
     bind_result (last_row solution) (\<lambda>r. Inr (moment r)))"

definition solve_fixed_hinged ::
  "brentq_fn \<Rightarrow> odeint_fn \<Rightarrow> BeamColumnSolver \<Rightarrow> real list \<Rightarrow> error + solution" where
  "solve_fixed_hinged brentq odeint s x =
     (let V_initial = apply_point_loads s 0 x
      in bind_result
           (except_ValueError
              (brentq (fixed_hinged_shooting_function odeint s x V_initial) (-1) 1 (1 / 10 ^ 6))
              (Inr 0))
           (\<lambda>correct_slope.
              bind_result (solve_segmented odeint s (0, correct_slope, 0, V_initial) x)
                (\<lambda>solution. Inr (columns x solution))))"

definition hinged_fixed_shooting_equations ::
  "odeint_fn \<Rightarrow> BeamColumnSolver \<Rightarrow> real list \<Rightarrow> real \<Rightarrow> real \<times> real \<Rightarrow> error + real \<times> real" where
  "hinged_fixed_shooting_equations odeint s x V_initial params =
     (case params of (initial_slope, initial_moment) \<Rightarrow>
        bind_result (solve_segmented odeint s (0, initial_slope, initial_moment, V_initial) x)
          (\<lambda>solution.
        bind_result (first_row solution) (\<lambda>r0.
        bind_result (last_row solution) (\<lambda>r1. Inr (moment r0, deflection r1)))))"

definition solve_hinged_fixed ::
  "fsolve_fn \<Rightarrow> odeint_fn \<Rightarrow> BeamColumnSolver \<Rightarrow> real list \<Rightarrow> error + solution" where
  "solve_hinged_fixed fsolve odeint s x =
     (let V_initial = apply_point_loads s 0 x
      in bind_result
           (except_any
              (fsolve (hinged_fixed_shooting_equations odeint s x V_initial) (0, 0))
              (Inr (0, 0)))
           (\<lambda>correct_params. case correct_params of (initial_slope, initial_moment) \<Rightarrow>
              bind_result
                (solve_segmented odeint s (0, initial_slope, initial_moment, V_initial) x)
                (\<lambda>solution. Inr (columns x solution))))"

section \<open>Dispatch\<close>

text \<open>
  \<open>numpy.linspace(start, stop, num)\<close> with its default end point: it raises for a
  negative \<open>num\<close>, returns \<open>[start]\<close> for \<open>num = 1\<close>, and \<open>num\<close> evenly spaced samples
  otherwise (the text of its message is not modelled).
\<close>

definition linspace :: "real \<Rightarrow> real \<Rightarrow> int \<Rightarrow> error + real list" where
  "linspace start stop num =
     (if num < 0 then Inl (ValueError ''Number of samples must be non-negative.'')
      else if num = 1 then Inr [start]
      else Inr (map (\<lambda>i. start + real i * ((stop - start) / real_of_int (num - 1)))
                  [0 ..< nat num]))"

definition solve ::
  "brentq_fn \<Rightarrow> fsolve_fn \<Rightarrow> odeint_fn \<Rightarrow> BeamColumnSolver \<Rightarrow> int \<Rightarrow> error + solution" where
  "solve brentq fsolve odeint s num_points =
     bind_result (linspace 0 (self_L s) num_points) (\<lambda>x.
       let ec = end_condition (self_problem s)
       in if ec = ''cantilever'' then solve_cantilever brentq odeint s x
          else if ec = ''simply_supported'' then solve_simply_supported brentq odeint s x
          else if ec = ''fixed_fixed'' then solve_fixed_fixed fsolve odeint s x
          else if ec = ''hinged_free'' then solve_hinged_free brentq odeint s x
          else if ec = ''fixed_hinged'' then solve_fixed_hinged brentq odeint s x
          else if ec = ''hinged_fixed'' then solve_hinged_fixed fsolve odeint s x
          else Inl (ValueError (''Unknown end condition: '' @ ec)))"

section \<open>Stresses and strains\<close>

text \<open>
  The sum \<open>bending_stress**2 + axial_stress**2\<close> of two one-dimensional arrays follows
  NumPy's broadcasting: equal lengths add elementwise, an array of one element is
  stretched, and any other pair of lengths raises.
\<close>

definition broadcast2 :: "(real \<Rightarrow> real \<Rightarrow> real) \<Rightarrow> real list \<Rightarrow> real list \<Rightarrow> error + real list" where
  "broadcast2 f a b =
     (if length a = length b then Inr (map2 f a b)
      else if length a = 1 then Inr (map (\<lambda>bi. f (hd a) bi) b)
      else if length b = 1 then Inr (map (\<lambda>ai. f ai (hd b)) a)
      else Inl (ValueError ''operands could not be broadcast together''))"

definition calculate_stresses ::
  "BeamColumnSolver \<Rightarrow> real list \<Rightarrow> real list \<Rightarrow> error + real list \<times> real list \<times> real list" where
  "calculate_stresses s x M =
     (let I = moment_of_inertia (section_beam (self_problem s));
          bending_stress = map (\<lambda>Mi. \<bar>Mi\<bar> * self_c s / I) M;
          axial_stress = map (\<lambda>xi. 1 * self_P s / self_A s) x
      in bind_result
           (broadcast2 (\<lambda>b a. b ^ 2 + a ^ 2) bending_stress axial_stress)
           (\<lambda>sq. Inr (bending_stress, axial_stress, map sqrt sq)))"

definition calculate_strains ::
  "BeamColumnSolver \<Rightarrow> real list \<Rightarrow> real list \<Rightarrow> real list \<times> real list" where
  "calculate_strains s bending_stress axial_stress =
     (let E_mod = E (material (self_problem s));
          nu = poisson_ratio (material (self_problem s));
          bending_strain = map (\<lambda>b. b / E_mod) bending_stress;
          axial_strain = map (\<lambda>a. a / E_mod) axial_stress
      in (bending_strain, axial_strain))"

section \<open>Reference instances of the library functions\<close>

text \<open>
  Concrete functions to run the model on concrete inputs. \<open>odeint_rk4\<close> takes one
  classical Runge-Kutta step between consecutive sample positions; on the system
  \<open>beam_column_odes\<close>, whose solutions are polynomials of degree at most four, the step
  is exact (lemma \<open>rk4_step_beam_column\<close>). \<open>brentq_secant\<close> raises as \<open>brentq\<close> does when
  the function has the same strict sign at both ends of the bracket, returns an end
  point where the function is zero, and otherwise the root of the secant through the
  end points, which is the root of every affine function. \<open>fsolve_start\<close> evaluates
  the residuals once and returns its starting estimate.
\<close>

definition vadd :: "state \<Rightarrow> state \<Rightarrow> state" where
  "vadd a b = (case a of (a1, a2, a3, a4) \<Rightarrow> case b of (b1, b2, b3, b4) \<Rightarrow>
     (a1 + b1, a2 + b2, a3 + b3, a4 + b4))"

definition vscale :: "real \<Rightarrow> state \<Rightarrow> state" where
  "vscale k a = (case a of (a1, a2, a3, a4) \<Rightarrow> (k * a1, k * a2, k * a3, k * a4))"

definition rk4_step :: "(state \<Rightarrow> real \<Rightarrow> state) \<Rightarrow> state \<Rightarrow> real \<Rightarrow> real \<Rightarrow> state" where
  "rk4_step f y t h =
     (let k1 = f y t;
          k2 = f (vadd y (vscale (h / 2) k1)) (t + h / 2);
          k3 = f (vadd y (vscale (h / 2) k2)) (t + h / 2);
          k4 = f (vadd y (vscale h k3)) (t + h)
      in vadd y (vscale (h / 6) (vadd k1 (vadd (vscale 2 k2) (vadd (vscale 2 k3) k4)))))"

fun rk4_rows :: "(state \<Rightarrow> real \<Rightarrow> state) \<Rightarrow> state \<Rightarrow> real list \<Rightarrow> state list" where
  "rk4_rows f y [] = []"
| "rk4_rows f y [t] = [y]"
| "rk4_rows f y (t0 # t1 # ts) = y # rk4_rows f (rk4_step f y t0 (t1 - t0)) (t1 # ts)"

definition odeint_rk4 :: odeint_fn where
  "odeint_rk4 f y0 t = Inr (rk4_rows f y0 t)"

definition brentq_secant :: brentq_fn where
  "brentq_secant f a b xtol =
     bind_result (f a) (\<lambda>fa. bind_result (f b) (\<lambda>fb.
       if fa * fb > 0 then Inl (ValueError ''f(a) and f(b) must have different signs'')
       else if fa = 0 then Inr a
       else if fb = 0 then Inr b
       else Inr (a - fa * (b - a) / (fb - fa))))"

definition fsolve_start :: fsolve_fn where
  "fsolve_start f x0 = bind_result (f x0) (\<lambda>r. Inr x0)"

text \<open>
  What the documentation of \<open>odeint\<close> promises for a non-empty, monotonic sequence of
  sample positions: one row per position, the first row being the initial state.
\<close>

definition monotonic :: "real list \<Rightarrow> bool" where
  "monotonic t \<longleftrightarrow> sorted t \<or> sorted (rev t)"

definition odeint_contract :: "odeint_fn \<Rightarrow> bool" where
  "odeint_contract odeint \<longleftrightarrow>
     (\<forall>f y0 t. t \<noteq> [] \<and> monotonic t \<longrightarrow>
        (\<exists>rows. odeint f y0 t = Inr rows \<and> length rows = length t \<and> hd rows = y0))"

text \<open>
  What is assumed of \<open>brentq\<close> where a result of a solver is claimed: called on a
  function that does not raise, it returns a root or raises \<open>ValueError\<close> (the bracket
  shows no sign change).
\<close>

definition brentq_contract :: "brentq_fn \<Rightarrow> bool" where
  "brentq_contract brentq \<longleftrightarrow>
     (\<forall>f a b xtol. (\<forall>t. \<exists>r. f t = Inr r) \<longrightarrow>
        (\<exists>root. brentq f a b xtol = Inr root) \<or>
        (\<exists>msg. brentq f a b xtol = Inl (ValueError msg)))"

section \<open>Example problems\<close>

text \<open>
  A beam of length \<open>len\<close> with a 12 by 1 section and unit modulus, so that \<open>E\<cdot>I = 1\<close>,
  under the distributed load \<open>q\<close>, without axial load and self-weight.
\<close>

definition example_problem ::
  "real \<Rightarrow> real \<Rightarrow> PointLoad list option \<Rightarrow> string \<Rightarrow> BeamColumnProblem" where
  "example_problem len q pls ec =
     new_BeamColumnProblem len \<lparr>width = 12, height = 1\<rparr>
       \<lparr>E = 1, density = 0, poisson_ratio = 3 / 10\<rparr>
       0 q 0 pls ''horizontal'' False (981 / 100) ec"

definition example_solver ::
  "real \<Rightarrow> real \<Rightarrow> PointLoad list option \<Rightarrow> string \<Rightarrow> BeamColumnSolver" where
  "example_solver len q pls ec =
     \<lparr>self_problem = example_problem len q pls ec,
      self_EI = 1, self_P = 0, self_q = q,
      self_point_loads = post_init_point_loads len 0 pls,
      self_L = len, self_A = 12, self_E = 1, self_c = 1 / 2, self_alpha = 0\<rparr>"

definition down :: "real \<Rightarrow> real \<Rightarrow> PointLoad" where
  "down m a = \<lparr>magnitude = m, position = a, as_fraction = False, direction = ''downward''\<rparr>"

definition up :: "real \<Rightarrow> real \<Rightarrow> PointLoad" where
  "up m a = \<lparr>magnitude = m, position = a, as_fraction = False, direction = ''upward''\<rparr>"

text \<open>
  The same beam of length 2 under \<open>q = 3\<close>, built without a point-load list and with the
  legacy field \<open>point_load = pl\<close>.
\<close>

definition legacy_problem :: "real \<Rightarrow> BeamColumnProblem" where
  "legacy_problem pl =
     new_BeamColumnProblem 2 \<lparr>width = 12, height = 1\<rparr>
       \<lparr>E = 1, density = 0, poisson_ratio = 3 / 10\<rparr>
       0 3 pl None ''horizontal'' False (981 / 100) ''cantilever''"

definition legacy_solver :: "real \<Rightarrow> BeamColumnSolver" where
  "legacy_solver pl =
     \<lparr>self_problem = legacy_problem pl,
      self_EI = 1, self_P = 0, self_q = 3,
      self_point_loads = post_init_point_loads 2 pl None,
      self_L = 2, self_A = 12, self_E = 1, self_c = 1 / 2, self_alpha = 0\<rparr>"

section \<open>The example solver and the reference integrator\<close>

lemma init_example_solver:
  "init_BeamColumnSolver (example_problem len q pls ec) = Inr (example_solver len q pls ec)"
  by (simp add: example_solver_def init_BeamColumnSolver_def example_problem_def
      new_BeamColumnProblem_def moment_of_inertia_def area_def max_distance_from_neutral_def
      total_lateral_load_def Let_def)

lemma example_solver_fields:
  "self_EI (example_solver len q pls ec) = 1"
  "self_q (example_solver len q pls ec) = q"
  "self_L (example_solver len q pls ec) = len"
  "self_P (example_solver len q pls ec) = 0"
  "self_A (example_solver len q pls ec) = 12"
  "self_c (example_solver len q pls ec) = 1 / 2"
  "self_E (example_solver len q pls ec) = 1"
  "self_point_loads (example_solver len q pls ec) = post_init_point_loads len 0 pls"
  "self_problem (example_solver len q pls ec) = example_problem len q pls ec"
  by (simp_all add: example_solver_def)

lemma example_problem_fields:
  "end_condition (example_problem len q pls ec) = ec"
  "length_beam (example_problem len q pls ec) = len"
  "section_beam (example_problem len q pls ec) = \<lparr>width = 12, height = 1\<rparr>"
  "material (example_problem len q pls ec) = \<lparr>E = 1, density = 0, poisson_ratio = 3 / 10\<rparr>"
  "point_loads (example_problem len q pls ec) = post_init_point_loads len 0 pls"
  "total_lateral_load (example_problem len q pls ec) = q"
  by (simp_all add: example_problem_def new_BeamColumnProblem_def total_lateral_load_def)

section \<open>The ODE system (C1)\<close>

text \<open>
  C1. For every state \<open>y = [v, \<theta>, M, V]\<close> and every position \<open>x\<close>, the derivative
  function of a solver built from a problem with \<open>E\<cdot>I \<noteq> 0\<close> returns
  \<open>[\<theta>, M / (E\<cdot>I), V, - q_total]\<close>, where \<open>q_total\<close> is the total lateral load of the
  problem. The result is the same at every other position and for every other axial
  load.
\<close>

theorem beam_column_odes_formula:
  assumes "init_BeamColumnSolver p = Inr s"
    and "E (material p) * moment_of_inertia (section_beam p) \<noteq> 0"
  shows "beam_column_odes s (v, theta, M, V) x =
           (theta, M / (E (material p) * moment_of_inertia (section_beam p)), V,
            - total_lateral_load p)
         \<and> (\<exists>s'. init_BeamColumnSolver (p\<lparr>axial_load := P'\<rparr>) = Inr s' \<and>
                  beam_column_odes s' (v, theta, M, V) x' = beam_column_odes s (v, theta, M, V) x)"
  using assms
  by (auto simp: init_BeamColumnSolver_def beam_column_odes_def Let_def total_lateral_load_def
      self_weight_load_def split: if_splits)

theorem beam_column_odes_formula_witness:
  "beam_column_odes (example_solver 2 3 None ''cantilever'') (1, 2, 5, 7) 0 = (2, 5, 7, - 3)
   \<and> (\<exists>s'. init_BeamColumnSolver ((example_problem 2 3 None ''cantilever'')\<lparr>axial_load := 100\<rparr>)
             = Inr s' \<and>
           beam_column_odes s' (1, 2, 5, 7) 1 =
           beam_column_odes (example_solver 2 3 None ''cantilever'') (1, 2, 5, 7) 0)"
  using beam_column_odes_formula [OF init_example_solver [of 2 3 None "''cantilever''"],
      where v = 1 and theta = 2 and M = 5 and V = 7 and x = 0 and P' = 100 and x' = 1]
  by (auto simp add: example_problem_fields moment_of_inertia_def)

section \<open>The reference integrator satisfies the contract\<close>

lemma rk4_step_beam_column:
  "rk4_step (beam_column_odes s) (v, th, M, V) t h =
     (v + th * h + M / self_EI s * h ^ 2 / 2 + V / self_EI s * h ^ 3 / 6
        - self_q s / self_EI s * h ^ 4 / 24,
      th + M / self_EI s * h + V / self_EI s * h ^ 2 / 2 - self_q s / self_EI s * h ^ 3 / 6,
      M + V * h - self_q s * h ^ 2 / 2,
      V - self_q s * h)"
  by (simp add: rk4_step_def beam_column_odes_def vadd_def vscale_def Let_def
      power2_eq_square power3_eq_cube power4_eq_xxxx add_divide_distrib diff_divide_distrib algebra_simps)

lemma length_rk4_rows: "length (rk4_rows f y t) = length t"
  by (induction f y t rule: rk4_rows.induct) auto

lemma hd_rk4_rows: "t \<noteq> [] \<Longrightarrow> hd (rk4_rows f y t) = y"
  by (induction f y t rule: rk4_rows.induct) auto

lemma odeint_rk4_contract: "odeint_contract odeint_rk4"
  by (simp add: odeint_contract_def odeint_rk4_def length_rk4_rows hd_rk4_rows)

lemma monotonic_filter: "monotonic t \<Longrightarrow> monotonic (filter P t)"
  unfolding monotonic_def by (auto simp: rev_filter sorted_wrt_filter)

lemma hd_concat_snoc:
  "\<forall>seg\<in>set acc. seg \<noteq> [] \<Longrightarrow> rows \<noteq> [] \<Longrightarrow>
   hd (concat (acc @ [rows])) = (if acc = [] then hd rows else hd (concat acc))"
  by (cases acc) auto

lemma segments_loop_rows:
  "odeint_contract odeint \<Longrightarrow> monotonic x \<Longrightarrow> \<forall>seg\<in>set acc. seg \<noteq> [] \<Longrightarrow>
         \<exists>sl. segments_loop odeint s x bs cur acc = Inr sl \<and> (\<forall>seg\<in>set sl. seg \<noteq> []) \<and>
              (sl = [] \<longrightarrow> acc = []) \<and>
              (sl \<noteq> [] \<longrightarrow> hd (concat sl) = (if acc = [] then cur else hd (concat acc)))"
proof (induction odeint s x bs cur acc rule: segments_loop.induct)
  case (1 odeint s x x_start x_end rest current_state solution_list)
  let ?seg = "filter (\<lambda>xi. x_start \<le> xi \<and> xi \<le> x_end) x"
  note c = "1.prems"(1) and m = "1.prems"(2) and a = "1.prems"(3)
  show ?case
  proof (cases "?seg = []")
    case True
    with 1 show ?thesis by simp
  next
    case False
    have "monotonic ?seg" using m by (rule monotonic_filter)
    with c False obtain rows where
      rows: "odeint (beam_column_odes s) current_state ?seg = Inr rows"
        "length rows = length ?seg" "hd rows = current_state"
      unfolding odeint_contract_def by blast
    from rows(2) False have ne: "rows \<noteq> []" by auto
    then have lr: "last_row rows = Inr (last rows)" by (simp add: last_row_def)
    let ?cur = "if rest \<noteq> [] then apply_jumps (point_load_positions s) x_end (last rows) else last rows"
    have acc': "\<forall>seg\<in>set (solution_list @ [rows]). seg \<noteq> []"
      using a ne by auto
    from "1.IH"(2)[OF refl False rows(1) lr c m acc']
    obtain sl where sl:
      "segments_loop odeint s x (x_end # rest) ?cur (solution_list @ [rows]) = Inr sl"
      "\<forall>seg\<in>set sl. seg \<noteq> []" "sl \<noteq> []"
      "hd (concat sl) = hd (concat (solution_list @ [rows]))"
      by auto
    have "hd (concat (solution_list @ [rows])) =
            (if solution_list = [] then current_state else hd (concat solution_list))"
      using hd_concat_snoc[OF a ne] rows(3) by simp
    with sl False rows(1) lr show ?thesis by simp
  qed
qed auto

lemma solve_segmented_rows:
  assumes c: "odeint_contract odeint" and m: "monotonic x" and ne: "x \<noteq> []"
  shows "\<exists>sol. solve_segmented odeint s y0 x = Inr sol \<and> length sol = length x \<and> hd sol = y0"
proof -
  from segments_loop_rows[OF c m, of "[]" s "segment_boundaries s" y0]
  obtain sl where sl: "segments_loop odeint s x (segment_boundaries s) y0 [] = Inr sl"
    "sl \<noteq> [] \<longrightarrow> hd (concat sl) = y0" by auto
  let ?full = "if sl \<noteq> [] then concat sl else [y0]"
  have hd_full: "hd ?full = y0" using sl(2) by simp
  show ?thesis
  proof (cases "length ?full = length x")
    case True
    with sl(1) hd_full show ?thesis by (simp add: solve_segmented_def)
  next
    case False
    from c m ne obtain rows where
      "odeint (beam_column_odes s) y0 x = Inr rows" "length rows = length x" "hd rows = y0"
      unfolding odeint_contract_def by blast
    with sl(1) False show ?thesis by (simp add: solve_segmented_def)
  qed
qed

lemma solve_segmented_first:
  assumes "odeint_contract odeint" "monotonic x" "x \<noteq> []"
    and "solve_segmented odeint s y0 x = Inr sol"
  shows "sol \<noteq> [] \<and> hd sol = y0 \<and> first_row sol = Inr y0 \<and> last_row sol = Inr (last sol)"
proof -
  from solve_segmented_rows[OF assms(1-3), of s y0] assms(4)
  have "length sol = length x" "hd sol = y0" by auto
  with assms(3) show ?thesis by (cases sol) (auto simp: first_row_def last_row_def)
qed

lemma fold_signed_loads:
  "fold (\<lambda>pl V_init. V_init + f pl) pls a = a + sum_list (map f pls)"
  by (induction pls arbitrary: a) (simp_all add: add.assoc)

lemma init_fields:
  assumes "init_BeamColumnSolver p = Inr s"
  shows "self_problem s = p" "self_EI s = E (material p) * moment_of_inertia (section_beam p)"
    "self_P s = axial_load p" "self_q s = total_lateral_load p"
    "self_point_loads s = point_loads p" "self_L s = length_beam p"
    "self_A s = area (section_beam p)" "self_E s = E (material p)"
    "self_c s = max_distance_from_neutral (section_beam p)"
  using assms by (auto simp: init_BeamColumnSolver_def Let_def split: if_splits)

section \<open>Evaluation on the examples\<close>

lemmas eval_simps = example_solver_fields example_problem_fields post_init_point_loads_def
  down_def up_def
  solve_segmented_def segment_boundaries_def point_load_positions_def resolved_position_def
  load_sign_def odeint_rk4_def rk4_step_beam_column last_row_def first_row_def
  bind_result_def Let_def apply_point_loads_def columns_def
  deflection_def slope_def moment_def shear_def power_divide

lemmas solver_eval_simps = solve_cantilever_def cantilever_shooting_function_def
  solve_hinged_free_def hinged_free_shooting_function_def
  solve_fixed_hinged_def fixed_hinged_shooting_function_def
  solve_hinged_fixed_def hinged_fixed_shooting_equations_def
  solve_simply_supported_def simply_supported_shooting_function_def
  solve_fixed_fixed_def fixed_fixed_shooting_equations_def
  brentq_secant_def fsolve_start_def except_ValueError_def except_any_def

lemma linspace_0_2_3: "linspace 0 2 3 = Inr [0, 1, 2]"
  by (simp add: linspace_def upt_rec)

lemma linspace_0_1_3: "linspace 0 1 3 = Inr [0, 1 / 2, 1]"
  by (simp add: linspace_def upt_rec)

lemma monotonic_0_1_2: "monotonic [0, 1, 2]"
  by (simp add: monotonic_def)

section \<open>Functions that do not read the problem record or the point loads\<close>

lemma beam_column_odes_update [simp]:
  "beam_column_odes (s\<lparr>self_problem := p'\<rparr>) = beam_column_odes s"
  "beam_column_odes (s\<lparr>self_point_loads := pls\<rparr>) = beam_column_odes s"
  by (auto simp: beam_column_odes_def fun_eq_iff)

lemma point_load_positions_problem [simp]:
  "point_load_positions (s\<lparr>self_problem := p'\<rparr>) = point_load_positions s"
  by (simp add: point_load_positions_def resolved_position_def cong: if_cong)

lemma segment_boundaries_problem [simp]:
  "segment_boundaries (s\<lparr>self_problem := p'\<rparr>) = segment_boundaries s"
  by (simp add: segment_boundaries_def)

lemma segments_loop_problem [simp]:
  "segments_loop odeint (s\<lparr>self_problem := p'\<rparr>) x bs cur acc = segments_loop odeint s x bs cur acc"
proof (induction bs arbitrary: cur acc rule: induct_list012)
  case (3 x_start x_end rest)
  show ?case
    by (simp add: "3.IH"(2) Let_def split: sum.splits)
qed simp_all

lemma solve_segmented_problem [simp]:
  "solve_segmented odeint (s\<lparr>self_problem := p'\<rparr>) = solve_segmented odeint s"
  by (simp add: solve_segmented_def fun_eq_iff cong: if_cong sum.case_cong)

lemma apply_point_loads_problem [simp]:
  "apply_point_loads (s\<lparr>self_problem := p'\<rparr>) = apply_point_loads s"
  by (simp add: apply_point_loads_def fun_eq_iff)

lemma shooting_problem [simp]:
  "cantilever_shooting_function odeint (s\<lparr>self_problem := p'\<rparr>) = cantilever_shooting_function odeint s"
  "simply_supported_shooting_function odeint (s\<lparr>self_problem := p'\<rparr>) = simply_supported_shooting_function odeint s"
  "fixed_fixed_shooting_equations odeint (s\<lparr>self_problem := p'\<rparr>) = fixed_fixed_shooting_equations odeint s"
  "hinged_free_shooting_function odeint (s\<lparr>self_problem := p'\<rparr>) = hinged_free_shooting_function odeint s"
  "fixed_hinged_shooting_function odeint (s\<lparr>self_problem := p'\<rparr>) = fixed_hinged_shooting_function odeint s"
  "hinged_fixed_shooting_equations odeint (s\<lparr>self_problem := p'\<rparr>) = hinged_fixed_shooting_equations odeint s"
  by (simp_all add: fun_eq_iff
      cantilever_shooting_function_def simply_supported_shooting_function_def
      fixed_fixed_shooting_equations_def hinged_free_shooting_function_def
      fixed_hinged_shooting_function_def hinged_fixed_shooting_equations_def)

lemma solvers_problem [simp]:
  "solve_cantilever brentq odeint (s\<lparr>self_problem := p'\<rparr>) x = solve_cantilever brentq odeint s x"
  "solve_simply_supported brentq odeint (s\<lparr>self_problem := p'\<rparr>) x = solve_simply_supported brentq odeint s x"
  "solve_fixed_fixed fsolve odeint (s\<lparr>self_problem := p'\<rparr>) x = solve_fixed_fixed fsolve odeint s x"
  "solve_hinged_free brentq odeint (s\<lparr>self_problem := p'\<rparr>) x = solve_hinged_free brentq odeint s x"
  "solve_fixed_hinged brentq odeint (s\<lparr>self_problem := p'\<rparr>) x = solve_fixed_hinged brentq odeint s x"
  "solve_hinged_fixed fsolve odeint (s\<lparr>self_problem := p'\<rparr>) x = solve_hinged_fixed fsolve odeint s x"
  by (simp_all add: solve_cantilever_def solve_simply_supported_def solve_fixed_fixed_def
      solve_hinged_free_def solve_fixed_hinged_def solve_hinged_fixed_def cong: if_cong)

lemma solve_problem_update:
  "end_condition p' = end_condition (self_problem s) \<Longrightarrow>
   solve brentq fsolve odeint (s\<lparr>self_problem := p'\<rparr>) n = solve brentq fsolve odeint s n"
  by (simp add: solve_def cong: if_cong)

lemma unsegmented_shooting_point_loads [simp]:
  "simply_supported_shooting_function odeint (s\<lparr>self_point_loads := pls\<rparr>) = simply_supported_shooting_function odeint s"
  "fixed_fixed_shooting_equations odeint (s\<lparr>self_point_loads := pls\<rparr>) = fixed_fixed_shooting_equations odeint s"
  by (simp_all add: fun_eq_iff simply_supported_shooting_function_def
      fixed_fixed_shooting_equations_def)

lemma unsegmented_point_loads [simp]:
  "solve_simply_supported brentq odeint (s\<lparr>self_point_loads := pls\<rparr>) x = solve_simply_supported brentq odeint s x"
  "solve_fixed_fixed fsolve odeint (s\<lparr>self_point_loads := pls\<rparr>) x = solve_fixed_fixed fsolve odeint s x"
  by (simp_all add: solve_simply_supported_def solve_fixed_fixed_def cong: if_cong)

lemma init_point_load_update:
  "init_BeamColumnSolver p = Inr s \<Longrightarrow>
   init_BeamColumnSolver (p\<lparr>point_load := z\<rparr>) = Inr (s\<lparr>self_problem := p\<lparr>point_load := z\<rparr>\<rparr>)"
  by (auto simp: init_BeamColumnSolver_def Let_def total_lateral_load_def self_weight_load_def
      split: if_splits)

lemma init_point_loads_update:
  "init_BeamColumnSolver p = Inr s \<Longrightarrow>
   init_BeamColumnSolver (p\<lparr>point_loads := pls, point_load := z\<rparr>) =
     Inr (s\<lparr>self_problem := p\<lparr>point_loads := pls, point_load := z\<rparr>, self_point_loads := pls\<rparr>)"
  by (auto simp: init_BeamColumnSolver_def Let_def total_lateral_load_def self_weight_load_def
      split: if_splits)

lemma apply_point_loads_sum:
  "apply_point_loads s V_arg x_arg =
     self_q s * self_L s + (\<Sum>pl\<leftarrow>self_point_loads s. load_sign pl * magnitude pl)"
  by (simp add: apply_point_loads_def fold_signed_loads)

lemma hd_shear_columns:
  assumes "odeint_contract odeint" "monotonic x" "x \<noteq> []"
    and "solve_segmented odeint s (a, b, c, V0) x = Inr sol"
    and "columns x sol = (xs, v, M, V)"
  shows "hd V = V0"
proof -
  from solve_segmented_first[OF assms(1-4)] have "sol \<noteq> []" "hd sol = (a, b, c, V0)" by auto
  with assms(5) show ?thesis by (auto simp: columns_def hd_map shear_def)
qed

lemma map_zip_const_right:
  "length M = length x \<Longrightarrow>
   map F (zip (map b M) (map (\<lambda>xi. k) x)) = map (\<lambda>Mi. F (b Mi, k)) M"
  by (induction M x rule: list_induct2) simp_all

lemma segment_boundaries_characterised:
  "set (segment_boundaries s) =
     {0, self_L s} \<union>
     {resolved_position s pl | pl. pl \<in> set (self_point_loads s) \<and>
        0 < resolved_position s pl \<and> resolved_position s pl < self_L s}"
  "sorted (segment_boundaries s)"
  "distinct (segment_boundaries s)"
proof -
  have "fst ` {p \<in> set (point_load_positions s). 0 < fst p \<and> fst p < self_L s} =
        {resolved_position s pl | pl. pl \<in> set (self_point_loads s) \<and>
           0 < resolved_position s pl \<and> resolved_position s pl < self_L s}"
    by (force simp: point_load_positions_def)
  then show "set (segment_boundaries s) =
     {0, self_L s} \<union>
     {resolved_position s pl | pl. pl \<in> set (self_point_loads s) \<and>
        0 < resolved_position s pl \<and> resolved_position s pl < self_L s}"
    by (auto simp: segment_boundaries_def)
  show "sorted (segment_boundaries s)" "distinct (segment_boundaries s)"
    by (simp_all add: segment_boundaries_def)
qed

lemma apply_point_loads_positions:
  "apply_point_loads
     (s\<lparr>self_point_loads :=
          map (\<lambda>pl. pl\<lparr>position := new_position pl, as_fraction := new_fraction pl\<rparr>)
            (self_point_loads s)\<rparr>) V_arg' x_arg'
   = apply_point_loads s V_arg x_arg"
  by (simp add: apply_point_loads_sum o_def load_sign_def)

section \<open>The piecewise integrator with any integrator that keeps the contract\<close>

text \<open>
  Three inputs, for every integrator that returns one row per position with the
  initial state first. A point load on a grid point: the result is the whole-domain
  integration. Two point loads between neighbouring grid points: the first row behind
  them carries the jump of the first load only. An opposite pair of loads between two
  grid points: the row behind the pair repeats the row before it, where the beam
  without the pair has the integrated row.
\<close>

lemma contract_rows:
  assumes "odeint_contract odeint" "t \<noteq> []" "monotonic t"
  obtains rows where "odeint f y0 t = Inr rows" "length rows = length t" "hd rows = y0"
  using assms unfolding odeint_contract_def by blast

lemma rows_of_length_1: "length rows = 1 \<Longrightarrow> hd rows = y \<Longrightarrow> rows = [y]"
  by (cases rows) auto

lemma rows_of_length_2: "length rows = 2 \<Longrightarrow> hd rows = y \<Longrightarrow> \<exists>r. rows = [y, r]"
  by (cases rows; cases "tl rows") auto

lemma grid_point_load_any_integrator:
  assumes c: "odeint_contract odeint"
  shows "solve_segmented odeint (example_solver 2 0 (Some [down 10 1]) ''cantilever'') y0 [0, 1, 2]
         = odeint (beam_column_odes (example_solver 2 0 (Some [down 10 1]) ''cantilever'')) y0
             [0, 1, 2]"
proof -
  let ?s = "example_solver 2 0 (Some [down 10 1]) ''cantilever''"
  have b: "segment_boundaries ?s = [0, 1, 2]" by (simp add: eval_simps)
  obtain rows1 where r1: "odeint (beam_column_odes ?s) y0 [0, 1] = Inr rows1" "length rows1 = 2"
    by (rule contract_rows[OF c, of "[0, 1]" "beam_column_odes ?s" y0])
       (simp_all add: monotonic_def)
  then have ne1: "rows1 \<noteq> []" by auto
  let ?cur = "apply_jumps (point_load_positions ?s) 1 (last rows1)"
  obtain rows2 where r2: "odeint (beam_column_odes ?s) ?cur [1, 2] = Inr rows2" "length rows2 = 2"
    by (rule contract_rows[OF c, of "[1, 2]" "beam_column_odes ?s" ?cur])
       (simp_all add: monotonic_def)
  then have ne2: "rows2 \<noteq> []" by auto
  have loop: "segments_loop odeint ?s [0, 1, 2] [0, 1, 2] y0 [] = Inr [rows1, rows2]"
    using r1 r2 ne1 ne2 by (simp add: last_row_def)
  show ?thesis
    unfolding solve_segmented_def b loop using r1(2) r2(2) by simp
qed

lemma empty_segment_any_integrator:
  assumes c: "odeint_contract odeint"
  shows "\<exists>r. solve_segmented odeint
           (example_solver 1 0 (Some [down 10 (1 / 10), down 10 (1 / 5)]) ''cantilever'')
           (a, b, c', V0) [0, 1 / 2, 1]
         = Inr [(a, b, c', V0), (a, b, c', V0 - 10), r]"
proof -
  let ?s = "example_solver 1 0 (Some [down 10 (1 / 10), down 10 (1 / 5)]) ''cantilever''"
  let ?y0 = "(a, b, c', V0)"
  have bs: "segment_boundaries ?s = [0, 1 / 10, 1 / 5, 1]" by (simp add: eval_simps)
  have pl: "point_load_positions ?s = [(1 / 10, 10, 1), (1 / 5, 10, 1)]"
    by (simp add: eval_simps)
  obtain rows1 where r1: "odeint (beam_column_odes ?s) ?y0 [0] = Inr rows1" "length rows1 = 1"
    "hd rows1 = ?y0"
    by (rule contract_rows[OF c, of "[0]" "beam_column_odes ?s" ?y0])
       (simp_all add: monotonic_def)
  from r1(2,3) have e1: "rows1 = [?y0]" by (rule rows_of_length_1)
  let ?cur = "(a, b, c', V0 - 10)"
  obtain rows2 where r2: "odeint (beam_column_odes ?s) ?cur [1 / 2, 1] = Inr rows2"
    "length rows2 = 2" "hd rows2 = ?cur"
    by (rule contract_rows[OF c, of "[1 / 2, 1]" "beam_column_odes ?s" ?cur])
       (simp_all add: monotonic_def)
  from rows_of_length_2[OF r2(2,3)] obtain r where e2: "rows2 = [?cur, r]" by blast
  have loop: "segments_loop odeint ?s [0, 1 / 2, 1] [0, 1 / 10, 1 / 5, 1] ?y0 [] = Inr [rows1, rows2]"
    using r1(1) r2(1) by (simp add: e1 e2 last_row_def pl)
  show ?thesis
    unfolding solve_segmented_def bs loop by (cases r) (simp add: e1 e2)
qed

lemma load_pair_any_integrator:
  assumes c: "odeint_contract odeint"
  shows "(\<exists>r. solve_segmented odeint
           (example_solver 2 (1 / 2) (Some [down 1 (1 / 2), up 1 (1 / 2)]) ''cantilever'')
           (a, b, c', V0) [0, 1, 2]
         = Inr [(a, b, c', V0), (a, b, c', V0), r])
       \<and> solve_segmented odeint (example_solver 2 (1 / 2) (Some []) ''cantilever'')
           (a, b, c', V0) [0, 1, 2]
         = odeint (beam_column_odes (example_solver 2 (1 / 2) (Some []) ''cantilever''))
             (a, b, c', V0) [0, 1, 2]"
proof
  let ?s = "example_solver 2 (1 / 2) (Some [down 1 (1 / 2), up 1 (1 / 2)]) ''cantilever''"
  let ?y0 = "(a, b, c', V0)"
  have bs: "segment_boundaries ?s = [0, 1 / 2, 2]" by (simp add: eval_simps)
  have pl: "point_load_positions ?s = [(1 / 2, 1, 1), (1 / 2, 1, - 1)]"
    by (simp add: eval_simps)
  obtain rows1 where r1: "odeint (beam_column_odes ?s) ?y0 [0] = Inr rows1" "length rows1 = 1"
    "hd rows1 = ?y0"
    by (rule contract_rows[OF c, of "[0]" "beam_column_odes ?s" ?y0])
       (simp_all add: monotonic_def)
  from r1(2,3) have e1: "rows1 = [?y0]" by (rule rows_of_length_1)
  obtain rows2 where r2: "odeint (beam_column_odes ?s) ?y0 [1, 2] = Inr rows2"
    "length rows2 = 2" "hd rows2 = ?y0"
    by (rule contract_rows[OF c, of "[1, 2]" "beam_column_odes ?s" ?y0])
       (simp_all add: monotonic_def)
  from rows_of_length_2[OF r2(2,3)] obtain r where e2: "rows2 = [?y0, r]" by blast
  have loop: "segments_loop odeint ?s [0, 1, 2] [0, 1 / 2, 2] ?y0 [] = Inr [rows1, rows2]"
    using r1(1) r2(1) by (simp add: e1 e2 last_row_def pl)
  show "\<exists>r. solve_segmented odeint ?s ?y0 [0, 1, 2] = Inr [?y0, ?y0, r]"
    unfolding solve_segmented_def bs loop by (cases r) (simp add: e1 e2)
next
  let ?s = "example_solver 2 (1 / 2) (Some []) ''cantilever''"
  let ?y0 = "(a, b, c', V0)"
  have bs: "segment_boundaries ?s = [0, 2]" by (simp add: eval_simps)
  obtain rows where r: "odeint (beam_column_odes ?s) ?y0 [0, 1, 2] = Inr rows" "length rows = 3"
    by (rule contract_rows[OF c, of "[0, 1, 2]" "beam_column_odes ?s" ?y0])
       (simp_all add: monotonic_def)
  then have ne: "rows \<noteq> []" by auto
  have loop: "segments_loop odeint ?s [0, 1, 2] [0, 2] ?y0 [] = Inr [rows]"
    using r ne by (simp add: last_row_def)
  show "solve_segmented odeint ?s ?y0 [0, 1, 2] = odeint (beam_column_odes ?s) ?y0 [0, 1, 2]"
    unfolding solve_segmented_def bs loop using r ne by (cases rows) simp_all
qed

section \<open>The piecewise integrator (C2, C3)\<close>

text \<open>
  C2, at an input where the code departs from it. A beam of length 2 carries one point
  load of magnitude 10 at \<open>x = 1\<close>, and the grid is \<open>[0, 1, 2]\<close>. The masks of both
  segments are closed at both ends, so the grid point 1 is sampled twice: the loop
  returns four rows for three grid positions, the second segment starting with the
  jump applied. The row counts do not agree and the integrator returns the
  whole-domain integration instead, in which the shear is 10 at every position: the
  discontinuity is not placed at the grid point, it is dropped. \<open>solve\<close> returns this
  as its result.
\<close>

theorem grid_point_load_falls_back:
  "segments_loop odeint_rk4 (example_solver 2 0 (Some [down 10 1]) ''cantilever'') [0, 1, 2]
     (segment_boundaries (example_solver 2 0 (Some [down 10 1]) ''cantilever'')) (0, 0, 0, 10) []
     = Inr [[(0, 0, 0, 10), (5 / 3, 5, 10, 10)], [(5 / 3, 5, 10, 0), (35 / 3, 15, 10, 0)]]
   \<and> solve_segmented odeint_rk4 (example_solver 2 0 (Some [down 10 1]) ''cantilever'')
       (0, 0, 0, 10) [0, 1, 2]
     = Inr [(0, 0, 0, 10), (5 / 3, 5, 10, 10), (40 / 3, 20, 20, 10)]
   \<and> solve_segmented odeint_rk4 (example_solver 2 0 (Some [down 10 1]) ''cantilever'')
       (0, 0, 0, 10) [0, 1, 2]
     = odeint_rk4 (beam_column_odes (example_solver 2 0 (Some [down 10 1]) ''cantilever''))
         (0, 0, 0, 10) [0, 1, 2]
   \<and> solve brentq_secant fsolve_start odeint_rk4
       (example_solver 2 0 (Some [down 10 1]) ''cantilever'') 3
     = Inr ([0, 1, 2], [0, - 25, - 40], [0, 10, 20], [10, 10, 10])"
  by (simp add: solve_def linspace_0_2_3 solver_eval_simps eval_simps)

text \<open>
  C3, at an input where the code departs from it. A beam of length 1 carries point
  loads of magnitude 10 at \<open>x = 1/10\<close> and at \<open>x = 1/5\<close>; the grid is \<open>[0, 1/2, 1]\<close>.
  The boundaries are \<open>[0, 1/10, 1/5, 1]\<close> as claimed. The segment between the two
  loads holds no grid position, the loop continues before it reaches the jump, and the
  load at \<open>1/5\<close> is never subtracted: the shear stays at 10 behind both loads, where
  the claim gives \<open>20 - 10 - 10 = 0\<close>.
\<close>

theorem empty_segment_skips_jump:
  "segment_boundaries (example_solver 1 0 (Some [down 10 (1 / 10), down 10 (1 / 5)]) ''cantilever'')
     = [0, 1 / 10, 1 / 5, 1]
   \<and> solve_segmented odeint_rk4
       (example_solver 1 0 (Some [down 10 (1 / 10), down 10 (1 / 5)]) ''cantilever'')
       (0, 0, 0, 20) [0, 1 / 2, 1]
     = Inr [(0, 0, 0, 20), (0, 0, 0, 10), (5 / 24, 5 / 4, 5, 10)]
   \<and> solve brentq_secant fsolve_start odeint_rk4
       (example_solver 1 0 (Some [down 10 (1 / 10), down 10 (1 / 5)]) ''cantilever'') 3
     = Inr ([0, 1 / 2, 1], [0, 0, 0], [0, 0, 5], [20, 10, 10])"
  by (simp add: solve_def linspace_0_1_3 solver_eval_simps eval_simps)

section \<open>Initial shear (C4)\<close>

text \<open>
  C4. The initial shear computed by \<open>_apply_point_loads\<close> is \<open>q_total \<cdot> L\<close> plus the sum
  of \<open>direction_sign \<cdot> magnitude\<close> over all point loads, whatever its two arguments
  (the value passed in and the sample grid) are, and it does not change when the
  positions of the point loads are replaced by any others. It is
  the shear of the first row of every result of the cantilever, hinged_free,
  fixed_hinged and hinged_fixed solvers, whatever the root finder returned, for an
  integrator that keeps its contract on a non-empty monotonic grid.
\<close>

theorem initial_shear:
  assumes i: "init_BeamColumnSolver p = Inr s"
    and c: "odeint_contract odeint" and m: "monotonic x" and ne: "x \<noteq> []"
  shows "apply_point_loads s V_arg x_arg =
           total_lateral_load p * length_beam p
           + (\<Sum>pl\<leftarrow>point_loads p. load_sign pl * magnitude pl)
       \<and> (solve_cantilever brentq odeint s x = Inr (x1, v1, M1, V1) \<longrightarrow>
            hd V1 = apply_point_loads s V_arg x_arg)
       \<and> (solve_hinged_free brentq odeint s x = Inr (x2, v2, M2, V2) \<longrightarrow>
            hd V2 = apply_point_loads s V_arg x_arg)
       \<and> (solve_fixed_hinged brentq odeint s x = Inr (x3, v3, M3, V3) \<longrightarrow>
            hd V3 = apply_point_loads s V_arg x_arg)
       \<and> (solve_hinged_fixed fsolve odeint s x = Inr (x4, v4, M4, V4) \<longrightarrow>
            hd V4 = apply_point_loads s V_arg x_arg)
       \<and> apply_point_loads
           (s\<lparr>self_point_loads :=
                map (\<lambda>pl. pl\<lparr>position := new_position pl, as_fraction := new_fraction pl\<rparr>)
                  (self_point_loads s)\<rparr>) V_arg x_arg
         = apply_point_loads s V_arg x_arg"
proof -
  let ?F = "total_lateral_load p * length_beam p
            + (\<Sum>pl\<leftarrow>point_loads p. load_sign pl * magnitude pl)"
  have F: "apply_point_loads s V_arg x_arg = ?F" for V_arg x_arg
    by (simp add: apply_point_loads_sum init_fields[OF i])
  note h = hd_shear_columns[OF c m ne]
  have 1: "hd V = ?F" if "solve_cantilever brentq odeint s x = Inr (xs, v, M, V)" for xs v M V
    using that by (auto simp: solve_cantilever_def bind_result_def Let_def F
        split: sum.splits dest: h)
  have 2: "hd V = ?F" if "solve_hinged_free brentq odeint s x = Inr (xs, v, M, V)" for xs v M V
    using that by (auto simp: solve_hinged_free_def bind_result_def Let_def F
        split: sum.splits dest: h)
  have 3: "hd V = ?F" if "solve_fixed_hinged brentq odeint s x = Inr (xs, v, M, V)" for xs v M V
    using that by (auto simp: solve_fixed_hinged_def bind_result_def Let_def F
        split: sum.splits dest: h)
  have 4: "hd V = ?F" if "solve_hinged_fixed fsolve odeint s x = Inr (xs, v, M, V)" for xs v M V
    using that by (auto simp: solve_hinged_fixed_def bind_result_def Let_def F
        split: sum.splits prod.splits dest: h)
  have 5: "apply_point_loads
           (s\<lparr>self_point_loads :=
                map (\<lambda>pl. pl\<lparr>position := new_position pl, as_fraction := new_fraction pl\<rparr>)
                  (self_point_loads s)\<rparr>) V_arg x_arg
         = apply_point_loads s V_arg x_arg"
    by (rule apply_point_loads_positions)
  from F 1 2 3 4 5 show ?thesis by simp
qed

text \<open>
  The beam of length 2 under \<open>q = 3\<close> with a downward load 10 at \<open>x = 2\<close> and an upward
  load 4 at \<open>x = 0\<close>: the initial shear is \<open>3 \<cdot> 2 + 10 - 4 = 12\<close> in all four solvers.
\<close>

theorem initial_shear_witness:
  "apply_point_loads (example_solver 2 3 (Some [down 10 2, up 4 0]) ''cantilever'') 7 [5] = 12
   \<and> solve_cantilever brentq_secant odeint_rk4
       (example_solver 2 3 (Some [down 10 2, up 4 0]) ''cantilever'') [0, 1, 2]
     = Inr ([0, 1, 2], [0, - (1235 / 24), - (278 / 3)], [0, 21 / 2, 18], [12, 9, 6])
   \<and> solve_hinged_free brentq_secant odeint_rk4
       (example_solver 2 3 (Some [down 10 2, up 4 0]) ''cantilever'') [0, 1, 2]
     = Inr ([0, 1, 2], [0, 11 / 8, 12], [- 1, 19 / 2, 17], [12, 9, 6])
   \<and> solve_fixed_hinged brentq_secant odeint_rk4
       (example_solver 2 3 (Some [down 10 2, up 4 0]) ''cantilever'') [0, 1, 2]
     = Inr ([0, 1, 2], [0, 15 / 8, 14], [0, 21 / 2, 18], [12, 9, 6])
   \<and> solve_hinged_fixed fsolve_start odeint_rk4
       (example_solver 2 3 (Some [down 10 2, up 4 0]) ''cantilever'') [0, 1, 2]
     = Inr ([0, 1, 2], [0, 15 / 8, 14], [0, 21 / 2, 18], [12, 9, 6])
   \<and> hd [12, 9, 6] = apply_point_loads
        (example_solver 2 3 (Some [down 10 2, up 4 0]) ''cantilever'') 7 [5]"
  using initial_shear [OF init_example_solver odeint_rk4_contract monotonic_0_1_2,
      where brentq = brentq_secant and fsolve = fsolve_start and V_arg = 7 and x_arg = "[5]"]
  by (simp add: solver_eval_simps eval_simps)

section \<open>Shooting residuals at the first grid point (C5)\<close>

text \<open>
  C5, as amended. For an integrator that keeps its contract on a non-empty monotonic
  grid, the hinged_free residual (the deflection at the first grid point) is zero for
  every guessed moment, and the first hinged_fixed residual (the moment at the first
  grid point) is the guessed initial moment itself, for every guessed slope: it is
  zero exactly when the guessed moment is.
\<close>

theorem shooting_residuals_at_start:
  assumes "odeint_contract odeint" "monotonic x" "x \<noteq> []"
  shows "hinged_free_shooting_function odeint s x V_initial initial_moment = Inr 0
       \<and> (\<exists>r. hinged_fixed_shooting_equations odeint s x V_initial (initial_slope, initial_moment)
                = Inr (initial_moment, r))"
proof
  obtain sol where sol: "solve_segmented odeint s (0, 0, initial_moment, V_initial) x = Inr sol"
    using solve_segmented_rows[OF assms] by blast
  from solve_segmented_first[OF assms sol]
  show "hinged_free_shooting_function odeint s x V_initial initial_moment = Inr 0"
    by (simp add: hinged_free_shooting_function_def bind_result_def sol deflection_def)
next
  obtain sol where sol:
    "solve_segmented odeint s (0, initial_slope, initial_moment, V_initial) x = Inr sol"
    using solve_segmented_rows[OF assms] by blast
  from solve_segmented_first[OF assms sol]
  show "\<exists>r. hinged_fixed_shooting_equations odeint s x V_initial (initial_slope, initial_moment)
                = Inr (initial_moment, r)"
    by (simp add: hinged_fixed_shooting_equations_def bind_result_def sol moment_def)
qed

theorem shooting_residuals_at_start_witness:
  "hinged_free_shooting_function odeint_rk4 (example_solver 2 1 None ''hinged_free'')
     [0, 1, 2] 2 5 = Inr 0
   \<and> hinged_fixed_shooting_equations odeint_rk4 (example_solver 2 1 None ''hinged_free'')
       [0, 1, 2] 2 (3, 5) = Inr (5, 18)"
  using shooting_residuals_at_start [OF odeint_rk4_contract monotonic_0_1_2,
      where s = "example_solver 2 1 None ''hinged_free''" and V_initial = 2
        and initial_moment = 5 and initial_slope = 3]
  by (simp add: hinged_free_shooting_function_def hinged_fixed_shooting_equations_def eval_simps)

text \<open>
  C5 as stated fails for hinged_fixed: with the guess (slope 0, moment 1) on the beam of
  length 2 under \<open>q = 1\<close>, the first residual is 1.
\<close>

theorem hinged_fixed_residual_counterexample:
  "hinged_fixed_shooting_equations odeint_rk4 (example_solver 2 1 None ''hinged_fixed'')
     [0, 1, 2] (apply_point_loads (example_solver 2 1 None ''hinged_fixed'') 0 [0, 1, 2]) (0, 1)
   = Inr (1, 4)"
  by (simp add: hinged_fixed_shooting_equations_def eval_simps)

section \<open>Superposition of an opposite load pair (C6)\<close>

text \<open>
  C6, at an input where the code departs from it. The cantilever of length 2 under
  \<open>q = 1/2\<close> on the grid \<open>[0, 1, 2]\<close>, once with a downward and an upward load of
  magnitude 1 at \<open>x = 1/2\<close> and once without point loads. The pair adds the boundary
  \<open>1/2\<close>; the second segment starts at the grid position 1 from the state of the
  position 0, so nothing is integrated between them. Deflection, moment and shear
  differ at \<open>x = 1\<close> and at \<open>x = 2\<close>.
\<close>

theorem load_pair_changes_solution:
  "solve brentq_secant fsolve_start odeint_rk4
     (example_solver 2 (1 / 2) (Some ([] @ [down 1 (1 / 2), up 1 (1 / 2)])) ''cantilever'') 3
     = Inr ([0, 1, 2], [0, 0, 0], [0, 0, 3 / 4], [1, 1, 1 / 2])
   \<and> solve brentq_secant fsolve_start odeint_rk4
       (example_solver 2 (1 / 2) (Some []) ''cantilever'') 3
     = Inr ([0, 1, 2], [0, - (17 / 48), 0], [0, 3 / 4, 1], [1, 1 / 2, 0])"
  by (simp add: solve_def linspace_0_2_3 solver_eval_simps eval_simps)

section \<open>Construction of a problem (C7)\<close>

lemma init_legacy_solver:
  "init_BeamColumnSolver (legacy_problem pl) = Inr (legacy_solver pl)"
  by (simp add: legacy_solver_def init_BeamColumnSolver_def legacy_problem_def
      new_BeamColumnProblem_def moment_of_inertia_def area_def max_distance_from_neutral_def
      total_lateral_load_def Let_def)

text \<open>
  C7. A problem constructed without a point-load list has, when the legacy field is
  not zero, exactly one point load: of that magnitude, at the absolute position \<open>L\<close>,
  downward; and none when the field is zero. The solver takes its point loads from the
  list, and a later change of the legacy field changes neither the point loads of the
  solver nor any result of \<open>solve\<close> or \<open>calculate_stresses\<close>.
\<close>

theorem legacy_point_load_normalized:
  assumes p: "p = new_BeamColumnProblem len sec mat ax lat pl None ori isw grav ec"
    and i: "init_BeamColumnSolver p = Inr s"
  shows "point_loads p =
           (if pl \<noteq> 0
            then [\<lparr>magnitude = pl, position = len, as_fraction = False,
                   direction = ''downward''\<rparr>]
            else [])
       \<and> self_point_loads s = point_loads p
       \<and> (\<exists>s'. init_BeamColumnSolver (p\<lparr>point_load := z\<rparr>) = Inr s' \<and>
                self_point_loads s' = point_loads p \<and>
                solve brentq fsolve odeint s' n = solve brentq fsolve odeint s n \<and>
                calculate_stresses s' x M = calculate_stresses s x M)"
proof (intro conjI)
  show "point_loads p =
           (if pl \<noteq> 0
            then [\<lparr>magnitude = pl, position = len, as_fraction = False,
                   direction = ''downward''\<rparr>]
            else [])"
    by (simp add: p new_BeamColumnProblem_def post_init_point_loads_def)
  note sp = init_fields(1,5)[OF i]
  show "self_point_loads s = point_loads p" by (rule sp(2))
  let ?s' = "s\<lparr>self_problem := p\<lparr>point_load := z\<rparr>\<rparr>"
  have "init_BeamColumnSolver (p\<lparr>point_load := z\<rparr>) = Inr ?s'"
    using i by (rule init_point_load_update)
  moreover have "self_point_loads ?s' = point_loads p" using sp by simp
  moreover have "solve brentq fsolve odeint ?s' n = solve brentq fsolve odeint s n"
    using sp by (simp add: solve_problem_update)
  moreover have "calculate_stresses ?s' x M = calculate_stresses s x M"
    using sp by (simp add: calculate_stresses_def)
  ultimately show "\<exists>s'. init_BeamColumnSolver (p\<lparr>point_load := z\<rparr>) = Inr s' \<and>
                self_point_loads s' = point_loads p \<and>
                solve brentq fsolve odeint s' n = solve brentq fsolve odeint s n \<and>
                calculate_stresses s' x M = calculate_stresses s x M"
    by blast
qed

theorem legacy_point_load_normalized_witness:
  "point_loads (legacy_problem 5) =
     [\<lparr>magnitude = 5, position = 2, as_fraction = False, direction = ''downward''\<rparr>]
   \<and> point_loads (legacy_problem 0) = []
   \<and> self_point_loads (legacy_solver 5) = point_loads (legacy_problem 5)
   \<and> (\<exists>s'. init_BeamColumnSolver ((legacy_problem 5)\<lparr>point_load := 7\<rparr>) = Inr s' \<and>
            self_point_loads s' = point_loads (legacy_problem 5) \<and>
            solve brentq_secant fsolve_start odeint_rk4 s' 3 =
              solve brentq_secant fsolve_start odeint_rk4 (legacy_solver 5) 3 \<and>
            calculate_stresses s' [0, 1] [3, - 4] =
              calculate_stresses (legacy_solver 5) [0, 1] [3, - 4])"
  using legacy_point_load_normalized [OF legacy_problem_def [of 5] init_legacy_solver,
      where z = 7 and brentq = brentq_secant and fsolve = fsolve_start and odeint = odeint_rk4
        and n = 3 and x = "[0, 1]" and M = "[3, - 4]"]
    legacy_point_load_normalized [OF legacy_problem_def [of 0] init_legacy_solver, where z = 7]
  by auto

section \<open>Dispatch on the end condition (C8)\<close>

lemma brentq_secant_contract: "brentq_contract brentq_secant"
  unfolding brentq_contract_def
proof (intro allI impI)
  fix f :: "real \<Rightarrow> error + real" and a b xtol :: real
  assume t: "\<forall>t. \<exists>r. f t = Inr r"
  then obtain fa fb where "f a = Inr fa" "f b = Inr fb" by blast
  then show "(\<exists>root. brentq_secant f a b xtol = Inr root) \<or>
             (\<exists>msg. brentq_secant f a b xtol = Inl (ValueError msg))"
    by (simp add: brentq_secant_def bind_result_def)
qed

lemma monotonic_affine_upt: "monotonic (map (\<lambda>i. a + real i * c) [0..<k])"
proof (cases "0 \<le> c")
  case True
  have "sorted_wrt (\<lambda>i j. a + real i * c \<le> a + real j * c) [0..<k]"
    by (rule sorted_wrt_mono_rel[OF _ sorted_upt[of 0 k]])
       (use True in \<open>simp add: mult_right_mono\<close>)
  then show ?thesis by (simp add: monotonic_def sorted_map)
next
  case False
  have "sorted_wrt (\<lambda>i j. a + real j * c \<le> a + real i * c) [0..<k]"
    by (rule sorted_wrt_mono_rel[OF _ sorted_upt[of 0 k]])
       (use False in \<open>simp add: mult_right_mono_neg\<close>)
  then show ?thesis
    by (simp add: monotonic_def sorted_wrt_rev sorted_wrt_map)
qed

lemma linspace_monotonic:
  assumes "linspace a b n = Inr x"
  shows "monotonic x"
proof (cases "n = 1")
  case True
  with assms have "x = [a]" by (simp add: linspace_def)
  then show ?thesis by (simp add: monotonic_def)
next
  case False
  with assms have "x = map (\<lambda>i. a + real i * ((b - a) / real_of_int (n - 1))) [0 ..< nat n]"
    by (auto simp: linspace_def split: if_splits)
  then show ?thesis by (simp only: monotonic_affine_upt)
qed

lemma linspace_nonempty: "0 < n \<Longrightarrow> linspace a b n = Inr x \<Longrightarrow> x \<noteq> []"
  by (auto simp: linspace_def split: if_splits)

lemma except_ValueError_cases:
  assumes "(\<exists>root. body = Inr root) \<or> (\<exists>msg. body = Inl (ValueError msg))"
    and "\<exists>r. handler = Inr r"
  shows "\<exists>r. except_ValueError body handler = Inr r"
  using assms by (auto simp: except_ValueError_def)

lemma except_any_Inr:
  "\<exists>r. handler = Inr r \<Longrightarrow> \<exists>r. except_any body handler = Inr r"
  by (cases body) (auto simp: except_any_def)

lemma odeint_rows_last:
  assumes "odeint_contract odeint" "monotonic x" "x \<noteq> []"
  shows "\<exists>sol. odeint f y0 x = Inr sol \<and> last_row sol = Inr (last sol)"
proof -
  from assms obtain rows where "odeint f y0 x = Inr rows" "length rows = length x"
    unfolding odeint_contract_def by blast
  with assms(3) show ?thesis by (auto simp: last_row_def)
qed

lemma solve_segmented_last:
  assumes "odeint_contract odeint" "monotonic x" "x \<noteq> []"
  shows "\<exists>sol. solve_segmented odeint s y0 x = Inr sol \<and> last_row sol = Inr (last sol)
           \<and> first_row sol = Inr y0"
proof -
  from solve_segmented_rows[OF assms, of s y0] obtain sol where
    sol: "solve_segmented odeint s y0 x = Inr sol" by blast
  from solve_segmented_first[OF assms sol] sol show ?thesis by blast
qed

lemma cantilever_no_error:
  assumes c: "odeint_contract odeint" and b: "brentq_contract brentq"
    and m: "monotonic x" and ne: "x \<noteq> []" and ei: "self_EI s \<noteq> 0"
  shows "\<exists>r. solve_cantilever brentq odeint s x = Inr r"
proof -
  let ?V = "apply_point_loads s 0 x"
  have tot: "\<forall>t. \<exists>r. cantilever_shooting_function odeint s x ?V t = Inr r"
  proof
    fix t
    from solve_segmented_last[OF c m ne, of s "(0, t, 0, ?V)"]
    show "\<exists>r. cantilever_shooting_function odeint s x ?V t = Inr r"
      by (auto simp: cantilever_shooting_function_def bind_result_def)
  qed
  from b tot have d: "(\<exists>root. brentq (cantilever_shooting_function odeint s x ?V) (- 1) 1 (1 / 10 ^ 6) = Inr root)
      \<or> (\<exists>msg. brentq (cantilever_shooting_function odeint s x ?V) (- 1) 1 (1 / 10 ^ 6) = Inl (ValueError msg))"
    unfolding brentq_contract_def by blast
  have h: "\<exists>r. (let total_load = self_q s * self_L s + sum_list (map magnitude (self_point_loads s))
         in if 3 * self_EI s = 0 then Inl ZeroDivisionError
            else Inr (- total_load * self_L s ^ 3 / (3 * self_EI s))) = Inr r"
    using ei by (simp add: Let_def)
  obtain cs where cs: "except_ValueError
        (brentq (cantilever_shooting_function odeint s x ?V) (- 1) 1 (1 / 10 ^ 6))
        (let total_load = self_q s * self_L s + sum_list (map magnitude (self_point_loads s))
         in if 3 * self_EI s = 0 then Inl ZeroDivisionError
            else Inr (- total_load * self_L s ^ 3 / (3 * self_EI s))) = Inr cs"
    using except_ValueError_cases[OF d h] by blast
  from solve_segmented_last[OF c m ne, of s "(0, cs, 0, ?V)"] cs
  show ?thesis
    by (auto simp: solve_cantilever_def bind_result_def Let_def columns_def)
qed


lemma brentq_result:
  assumes b: "brentq_contract brentq" and tot: "\<forall>t. \<exists>r. f t = Inr r"
    and h: "\<exists>r. handler = Inr r"
  shows "\<exists>r. except_ValueError (brentq f lo hi xtol) handler = Inr r"
proof -
  from b tot have "(\<exists>root. brentq f lo hi xtol = Inr root)
      \<or> (\<exists>msg. brentq f lo hi xtol = Inl (ValueError msg))"
    unfolding brentq_contract_def by blast
  then show ?thesis using h by (rule except_ValueError_cases)
qed

lemma simply_supported_no_error:
  assumes c: "odeint_contract odeint" and b: "brentq_contract brentq"
    and m: "monotonic x" and ne: "x \<noteq> []" and ei: "self_EI s \<noteq> 0"
  shows "\<exists>r. solve_simply_supported brentq odeint s x = Inr r"
proof -
  have tot: "\<forall>t. \<exists>r. simply_supported_shooting_function odeint s x t = Inr r"
  proof
    fix t
    from odeint_rows_last[OF c m ne, of "beam_column_odes s" "(0, t, 0, self_q s * self_L s)"]
    show "\<exists>r. simply_supported_shooting_function odeint s x t = Inr r"
      by (auto simp: simply_supported_shooting_function_def bind_result_def)
  qed
  have h: "\<exists>r. (if 24 * self_EI s = 0 then Inl ZeroDivisionError
           else Inr (self_q s * self_L s ^ 3 / (24 * self_EI s))) = Inr r"
    using ei by simp
  from brentq_result[OF b tot h] obtain cs where cs: "except_ValueError
        (brentq (simply_supported_shooting_function odeint s x) (- (1 / 2)) (1 / 2) (1 / 10 ^ 6))
        (if 24 * self_EI s = 0 then Inl ZeroDivisionError
           else Inr (self_q s * self_L s ^ 3 / (24 * self_EI s))) = Inr cs"
    by blast
  from odeint_rows_last[OF c m ne, of "beam_column_odes s" "(0, cs, 0, self_q s * self_L s)"] cs
  show ?thesis
    by (auto simp: solve_simply_supported_def bind_result_def columns_def)
qed

lemma fixed_fixed_no_error:
  assumes c: "odeint_contract odeint" and m: "monotonic x" and ne: "x \<noteq> []"
  shows "\<exists>r. solve_fixed_fixed fsolve odeint s x = Inr r"
proof -
  obtain sl mo where cp: "except_any (fsolve (fixed_fixed_shooting_equations odeint s x) (0, 0))
          (Inr (0, - self_q s * self_L s ^ 2 / 12)) = Inr (sl, mo)"
    using except_any_Inr[of "Inr (0, - self_q s * self_L s ^ 2 / 12)"] by fastforce
  from odeint_rows_last[OF c m ne, of "beam_column_odes s" "(0, sl, mo, self_q s * self_L s)"] cp
  show ?thesis
    by (auto simp: solve_fixed_fixed_def bind_result_def columns_def)
qed

lemma hinged_free_no_error:
  assumes c: "odeint_contract odeint" and b: "brentq_contract brentq"
    and m: "monotonic x" and ne: "x \<noteq> []"
  shows "\<exists>r. solve_hinged_free brentq odeint s x = Inr r"
proof -
  let ?V = "apply_point_loads s 0 x"
  have tot: "\<forall>t. \<exists>r. hinged_free_shooting_function odeint s x ?V t = Inr r"
  proof
    fix t
    from solve_segmented_last[OF c m ne, of s "(0, 0, t, ?V)"]
    show "\<exists>r. hinged_free_shooting_function odeint s x ?V t = Inr r"
      by (auto simp: hinged_free_shooting_function_def bind_result_def)
  qed
  have h: "\<exists>r. (Inr 0 :: error + real) = Inr r" by simp
  from brentq_result[OF b tot h] obtain cm where cm: "except_ValueError
        (brentq (hinged_free_shooting_function odeint s x ?V) (- 1) 1 (1 / 10 ^ 6)) (Inr 0) = Inr cm"
    by blast
  from solve_segmented_last[OF c m ne, of s "(0, 0, cm, ?V)"] cm
  show ?thesis
    by (auto simp: solve_hinged_free_def bind_result_def Let_def columns_def)
qed

lemma fixed_hinged_no_error:
  assumes c: "odeint_contract odeint" and b: "brentq_contract brentq"
    and m: "monotonic x" and ne: "x \<noteq> []"
  shows "\<exists>r. solve_fixed_hinged brentq odeint s x = Inr r"
proof -
  let ?V = "apply_point_loads s 0 x"
  have tot: "\<forall>t. \<exists>r. fixed_hinged_shooting_function odeint s x ?V t = Inr r"
  proof
    fix t
    from solve_segmented_last[OF c m ne, of s "(0, t, 0, ?V)"]
    show "\<exists>r. fixed_hinged_shooting_function odeint s x ?V t = Inr r"
      by (auto simp: fixed_hinged_shooting_function_def bind_result_def)
  qed
  have h: "\<exists>r. (Inr 0 :: error + real) = Inr r" by simp
  from brentq_result[OF b tot h] obtain cs where cs: "except_ValueError
        (brentq (fixed_hinged_shooting_function odeint s x ?V) (- 1) 1 (1 / 10 ^ 6)) (Inr 0) = Inr cs"
    by blast
  from solve_segmented_last[OF c m ne, of s "(0, cs, 0, ?V)"] cs
  show ?thesis
    by (auto simp: solve_fixed_hinged_def bind_result_def Let_def columns_def)
qed

lemma hinged_fixed_no_error:
  assumes c: "odeint_contract odeint" and m: "monotonic x" and ne: "x \<noteq> []"
  shows "\<exists>r. solve_hinged_fixed fsolve odeint s x = Inr r"
proof -
  let ?V = "apply_point_loads s 0 x"
  obtain sl mo where cp: "except_any
          (fsolve (hinged_fixed_shooting_equations odeint s x ?V) (0, 0)) (Inr (0, 0)) = Inr (sl, mo)"
    using except_any_Inr[of "Inr (0, 0)"] by fastforce
  from solve_segmented_last[OF c m ne, of s "(0, sl, mo, ?V)"] cp
  show ?thesis
    by (auto simp: solve_hinged_fixed_def bind_result_def Let_def columns_def)
qed

lemma solver_grid:
  "solve_cantilever brentq odeint s x = Inr r \<Longrightarrow> fst r = x"
  "solve_simply_supported brentq odeint s x = Inr r \<Longrightarrow> fst r = x"
  "solve_fixed_fixed fsolve odeint s x = Inr r \<Longrightarrow> fst r = x"
  "solve_hinged_free brentq odeint s x = Inr r \<Longrightarrow> fst r = x"
  "solve_fixed_hinged brentq odeint s x = Inr r \<Longrightarrow> fst r = x"
  "solve_hinged_fixed fsolve odeint s x = Inr r \<Longrightarrow> fst r = x"
  by (auto simp: solve_cantilever_def solve_simply_supported_def solve_fixed_fixed_def
      solve_hinged_free_def solve_fixed_hinged_def solve_hinged_fixed_def
      bind_result_def columns_def Let_def split: sum.splits prod.splits)

lemma result_with_grid:
  fixes f :: "error + solution"
  assumes "\<exists>r. f = Inr r" and "\<And>r. f = Inr r \<Longrightarrow> fst r = x"
  shows "\<exists>v M V. f = Inr (x, v, M, V)"
proof -
  from assms(1) obtain r where r: "f = Inr r" by blast
  obtain a v M V where "r = (a, v, M, V)" by (cases r) auto
  with r assms(2)[OF r] show ?thesis by auto
qed

text \<open>
  C8. For a sample count that \<open>linspace\<close> accepts, \<open>solve\<close> on a label outside the six
  recognised ones returns the error \<open>ValueError\<close> whose message names the label,
  whatever the integrator and the root finders are, which therefore are not
  consulted; on each of the six labels \<open>solve\<close> is the result of the solver of that
  label on the grid. On each of the six labels \<open>solve\<close> returns a result and no error,
  for a positive sample count, a stiffness \<open>E\<cdot>I \<noteq> 0\<close>, an integrator that keeps its
  contract and a \<open>brentq\<close> that keeps its own; \<open>fsolve\<close> may be any function.
\<close>

theorem solve_dispatch:
  assumes "0 \<le> num_points"
  shows "\<exists>x. linspace 0 (self_L s) num_points = Inr x \<and> int (length x) = num_points \<and>
     (end_condition (self_problem s) \<notin> {''cantilever'', ''simply_supported'', ''fixed_fixed'',
          ''hinged_free'', ''fixed_hinged'', ''hinged_fixed''} \<longrightarrow>
        solve brentq fsolve odeint s num_points =
          Inl (ValueError (''Unknown end condition: '' @ end_condition (self_problem s)))) \<and>
     (end_condition (self_problem s) = ''cantilever'' \<longrightarrow>
        solve brentq fsolve odeint s num_points = solve_cantilever brentq odeint s x) \<and>
     (end_condition (self_problem s) = ''simply_supported'' \<longrightarrow>
        solve brentq fsolve odeint s num_points = solve_simply_supported brentq odeint s x) \<and>
     (end_condition (self_problem s) = ''fixed_fixed'' \<longrightarrow>
        solve brentq fsolve odeint s num_points = solve_fixed_fixed fsolve odeint s x) \<and>
     (end_condition (self_problem s) = ''hinged_free'' \<longrightarrow>
        solve brentq fsolve odeint s num_points = solve_hinged_free brentq odeint s x) \<and>
     (end_condition (self_problem s) = ''fixed_hinged'' \<longrightarrow>
        solve brentq fsolve odeint s num_points = solve_fixed_hinged brentq odeint s x) \<and>
     (end_condition (self_problem s) = ''hinged_fixed'' \<longrightarrow>
        solve brentq fsolve odeint s num_points = solve_hinged_fixed fsolve odeint s x) \<and>
     (0 < num_points \<and> odeint_contract odeint \<and> brentq_contract brentq \<and> self_EI s \<noteq> 0 \<and>
      end_condition (self_problem s) \<in> {''cantilever'', ''simply_supported'', ''fixed_fixed'',
          ''hinged_free'', ''fixed_hinged'', ''hinged_fixed''} \<longrightarrow>
        (\<exists>v M V. solve brentq fsolve odeint s num_points = Inr (x, v, M, V)))"
proof -
  from assms obtain x where x: "linspace 0 (self_L s) num_points = Inr x"
    "int (length x) = num_points"
    by (cases "num_points = 1") (auto simp: linspace_def)
  have d: "solve brentq fsolve odeint s num_points =
      (let ec = end_condition (self_problem s)
       in if ec = ''cantilever'' then solve_cantilever brentq odeint s x
          else if ec = ''simply_supported'' then solve_simply_supported brentq odeint s x
          else if ec = ''fixed_fixed'' then solve_fixed_fixed fsolve odeint s x
          else if ec = ''hinged_free'' then solve_hinged_free brentq odeint s x
          else if ec = ''fixed_hinged'' then solve_fixed_hinged brentq odeint s x
          else if ec = ''hinged_fixed'' then solve_hinged_fixed fsolve odeint s x
          else Inl (ValueError (''Unknown end condition: '' @ ec)))"
    by (simp add: solve_def x bind_result_def)
  have ok: "\<exists>v M V. solve brentq fsolve odeint s num_points = Inr (x, v, M, V)"
    if p: "0 < num_points" and c: "odeint_contract odeint" and b: "brentq_contract brentq"
      and ei: "self_EI s \<noteq> 0"
      and ec: "end_condition (self_problem s) \<in> {''cantilever'', ''simply_supported'',
          ''fixed_fixed'', ''hinged_free'', ''fixed_hinged'', ''hinged_fixed''}"
  proof -
    have m: "monotonic x" using x(1) by (rule linspace_monotonic)
    have ne: "x \<noteq> []" using p x(2) by auto
    note r = cantilever_no_error[OF c b m ne ei]
      simply_supported_no_error[OF c b m ne ei]
      fixed_fixed_no_error[OF c m ne, where fsolve = fsolve and s = s]
      hinged_free_no_error[OF c b m ne, where s = s]
      fixed_hinged_no_error[OF c b m ne, where s = s]
      hinged_fixed_no_error[OF c m ne, where fsolve = fsolve and s = s]
    from ec consider "end_condition (self_problem s) = ''cantilever''"
      | "end_condition (self_problem s) = ''simply_supported''"
      | "end_condition (self_problem s) = ''fixed_fixed''"
      | "end_condition (self_problem s) = ''hinged_free''"
      | "end_condition (self_problem s) = ''fixed_hinged''"
      | "end_condition (self_problem s) = ''hinged_fixed''"
      by auto
    then show ?thesis
    proof cases
      case 1
      with result_with_grid[OF r(1) solver_grid(1)] show ?thesis by (simp add: d)
    next
      case 2
      with result_with_grid[OF r(2) solver_grid(2)] show ?thesis by (simp add: d)
    next
      case 3
      with result_with_grid[OF r(3) solver_grid(3)] show ?thesis by (simp add: d)
    next
      case 4
      with result_with_grid[OF r(4) solver_grid(4)] show ?thesis by (simp add: d)
    next
      case 5
      with result_with_grid[OF r(5) solver_grid(5)] show ?thesis by (simp add: d)
    next
      case 6
      with result_with_grid[OF r(6) solver_grid(6)] show ?thesis by (simp add: d)
    qed
  qed
  show ?thesis
    by (rule exI[of _ x]) (use ok in \<open>simp add: x d Let_def\<close>)
qed

theorem solve_dispatch_witness:
  "solve brentq_secant fsolve_start odeint_rk4 (example_solver 2 (1 / 2) None ''clamped'') 3 =
     Inl (ValueError ''Unknown end condition: clamped'')
   \<and> solve brentq_secant fsolve_start odeint_rk4 (example_solver 2 (1 / 2) None ''cantilever'') 3 =
       solve_cantilever brentq_secant odeint_rk4
         (example_solver 2 (1 / 2) None ''cantilever'') [0, 1, 2]
   \<and> solve brentq_secant fsolve_start odeint_rk4
         (example_solver 2 (1 / 2) None ''simply_supported'') 3 =
       solve_simply_supported brentq_secant odeint_rk4
         (example_solver 2 (1 / 2) None ''simply_supported'') [0, 1, 2]
   \<and> solve brentq_secant fsolve_start odeint_rk4 (example_solver 2 (1 / 2) None ''fixed_fixed'') 3 =
       solve_fixed_fixed fsolve_start odeint_rk4
         (example_solver 2 (1 / 2) None ''fixed_fixed'') [0, 1, 2]
   \<and> solve brentq_secant fsolve_start odeint_rk4 (example_solver 2 (1 / 2) None ''hinged_free'') 3 =
       solve_hinged_free brentq_secant odeint_rk4
         (example_solver 2 (1 / 2) None ''hinged_free'') [0, 1, 2]
   \<and> solve brentq_secant fsolve_start odeint_rk4 (example_solver 2 (1 / 2) None ''fixed_hinged'') 3 =
       solve_fixed_hinged brentq_secant odeint_rk4
         (example_solver 2 (1 / 2) None ''fixed_hinged'') [0, 1, 2]
   \<and> solve brentq_secant fsolve_start odeint_rk4 (example_solver 2 (1 / 2) None ''hinged_fixed'') 3 =
       solve_hinged_fixed fsolve_start odeint_rk4
         (example_solver 2 (1 / 2) None ''hinged_fixed'') [0, 1, 2]
   \<and> solve brentq_secant fsolve_start odeint_rk4 (example_solver 2 (1 / 2) None ''cantilever'') 3 =
       Inr ([0, 1, 2], [0, - (17 / 48), 0], [0, 3 / 4, 1], [1, 1 / 2, 0])
   \<and> solve brentq_secant fsolve_start odeint_rk4
         (example_solver 2 (1 / 2) None ''simply_supported'') 3 =
       Inr ([0, 1, 2], [0, - (17 / 48), 0], [0, 3 / 4, 1], [1, 1 / 2, 0])
   \<and> solve brentq_secant fsolve_start odeint_rk4 (example_solver 2 (1 / 2) None ''fixed_fixed'') 3 =
       Inr ([0, 1, 2], [0, 7 / 48, 1], [0, 3 / 4, 1], [1, 1 / 2, 0])
   \<and> solve brentq_secant fsolve_start odeint_rk4 (example_solver 2 (1 / 2) None ''hinged_free'') 3 =
       Inr ([0, 1, 2], [0, - (17 / 48), - 1], [- 1, - (1 / 4), 0], [1, 1 / 2, 0])
   \<and> solve brentq_secant fsolve_start odeint_rk4 (example_solver 2 (1 / 2) None ''fixed_hinged'') 3 =
       Inr ([0, 1, 2], [0, 7 / 48, 1], [0, 3 / 4, 1], [1, 1 / 2, 0])
   \<and> solve brentq_secant fsolve_start odeint_rk4 (example_solver 2 (1 / 2) None ''hinged_fixed'') 3 =
       Inr ([0, 1, 2], [0, 7 / 48, 1], [0, 3 / 4, 1], [1, 1 / 2, 0])"
  using
    solve_dispatch [where num_points = 3 and s = "example_solver 2 (1 / 2) None ''clamped''"
      and brentq = brentq_secant and fsolve = fsolve_start and odeint = odeint_rk4]
    solve_dispatch [where num_points = 3 and s = "example_solver 2 (1 / 2) None ''cantilever''"
      and brentq = brentq_secant and fsolve = fsolve_start and odeint = odeint_rk4]
    solve_dispatch [where num_points = 3
      and s = "example_solver 2 (1 / 2) None ''simply_supported''"
      and brentq = brentq_secant and fsolve = fsolve_start and odeint = odeint_rk4]
    solve_dispatch [where num_points = 3 and s = "example_solver 2 (1 / 2) None ''fixed_fixed''"
      and brentq = brentq_secant and fsolve = fsolve_start and odeint = odeint_rk4]
    solve_dispatch [where num_points = 3 and s = "example_solver 2 (1 / 2) None ''hinged_free''"
      and brentq = brentq_secant and fsolve = fsolve_start and odeint = odeint_rk4]
    solve_dispatch [where num_points = 3 and s = "example_solver 2 (1 / 2) None ''fixed_hinged''"
      and brentq = brentq_secant and fsolve = fsolve_start and odeint = odeint_rk4]
    solve_dispatch [where num_points = 3 and s = "example_solver 2 (1 / 2) None ''hinged_fixed''"
      and brentq = brentq_secant and fsolve = fsolve_start and odeint = odeint_rk4]
  by (simp add: example_solver_fields example_problem_fields linspace_0_2_3
      odeint_rk4_contract brentq_secant_contract solver_eval_simps eval_simps)

section \<open>Stresses and strains (C9)\<close>

text \<open>
  C9. For a solver of a problem with positive width, height and modulus, and arrays
  \<open>x\<close> and \<open>M\<close> of the same length, the post-processor returns elementwise the bending
  stress \<open>|M| \<cdot> c / I\<close>, which is never negative, the axial stress \<open>P / A\<close> at every
  position, and the combined stress \<open>sqrt (bending\<^sup>2 + axial\<^sup>2)\<close>; the strains are the
  stresses divided by \<open>E\<close>, and neither stresses nor strains change with the Poisson
  ratio.
\<close>

theorem stresses_and_strains:
  assumes i: "init_BeamColumnSolver p = Inr s"
    and w: "0 < width (section_beam p)" and h: "0 < height (section_beam p)"
    and e: "0 < E (material p)"
    and l: "length M = length x"
  shows "calculate_stresses s x M =
           Inr (map (\<lambda>Mi. \<bar>Mi\<bar> * max_distance_from_neutral (section_beam p)
                              / moment_of_inertia (section_beam p)) M,
                map (\<lambda>xi. axial_load p / area (section_beam p)) x,
                map (\<lambda>Mi. sqrt ((\<bar>Mi\<bar> * max_distance_from_neutral (section_beam p)
                                     / moment_of_inertia (section_beam p)) ^ 2
                                 + (axial_load p / area (section_beam p)) ^ 2)) M)
       \<and> (\<forall>Mi\<in>set M. 0 \<le> \<bar>Mi\<bar> * max_distance_from_neutral (section_beam p)
                              / moment_of_inertia (section_beam p))
       \<and> calculate_strains s bending_stress axial_stress =
           (map (\<lambda>b. b / E (material p)) bending_stress,
            map (\<lambda>a. a / E (material p)) axial_stress)
       \<and> (\<exists>s'. init_BeamColumnSolver (p\<lparr>material := (material p)\<lparr>poisson_ratio := nu'\<rparr>\<rparr>) = Inr s' \<and>
                calculate_stresses s' x M = calculate_stresses s x M \<and>
                calculate_strains s' bending_stress axial_stress =
                  calculate_strains s bending_stress axial_stress)"
proof (intro conjI)
  note f = init_fields[OF i]
  show "calculate_stresses s x M =
           Inr (map (\<lambda>Mi. \<bar>Mi\<bar> * max_distance_from_neutral (section_beam p)
                              / moment_of_inertia (section_beam p)) M,
                map (\<lambda>xi. axial_load p / area (section_beam p)) x,
                map (\<lambda>Mi. sqrt ((\<bar>Mi\<bar> * max_distance_from_neutral (section_beam p)
                                     / moment_of_inertia (section_beam p)) ^ 2
                                 + (axial_load p / area (section_beam p)) ^ 2)) M)"
    using l by (simp add: calculate_stresses_def Let_def f broadcast2_def bind_result_def
        map_zip_const_right)
  have "0 < moment_of_inertia (section_beam p)" "0 \<le> max_distance_from_neutral (section_beam p)"
    using w h by (simp_all add: moment_of_inertia_def max_distance_from_neutral_def)
  then show "\<forall>Mi\<in>set M. 0 \<le> \<bar>Mi\<bar> * max_distance_from_neutral (section_beam p)
                              / moment_of_inertia (section_beam p)"
    by simp
  show "calculate_strains s bending_stress axial_stress =
           (map (\<lambda>b. b / E (material p)) bending_stress,
            map (\<lambda>a. a / E (material p)) axial_stress)"
    by (simp add: calculate_strains_def Let_def f)
  let ?p' = "p\<lparr>material := (material p)\<lparr>poisson_ratio := nu'\<rparr>\<rparr>"
  let ?s' = "s\<lparr>self_problem := ?p'\<rparr>"
  have "init_BeamColumnSolver ?p' = Inr ?s'"
    using i by (auto simp: init_BeamColumnSolver_def Let_def total_lateral_load_def
        self_weight_load_def split: if_splits)
  moreover have "calculate_stresses ?s' x M = calculate_stresses s x M"
    by (simp add: calculate_stresses_def f)
  moreover have "calculate_strains ?s' bending_stress axial_stress =
                  calculate_strains s bending_stress axial_stress"
    by (simp add: calculate_strains_def f)
  ultimately show "\<exists>s'. init_BeamColumnSolver ?p' = Inr s' \<and>
                calculate_stresses s' x M = calculate_stresses s x M \<and>
                calculate_strains s' bending_stress axial_stress =
                  calculate_strains s bending_stress axial_stress"
    by blast
qed

theorem stresses_and_strains_witness:
  "calculate_stresses (example_solver 2 1 None ''cantilever'') [0, 1] [3, - 4]
     = Inr ([3 / 2, 2], [0, 0], [3 / 2, 2])
   \<and> calculate_strains (example_solver 2 1 None ''cantilever'') [3 / 2, 2] [0, 0]
     = ([3 / 2, 2], [0, 0])
   \<and> (\<exists>s'. init_BeamColumnSolver
             ((example_problem 2 1 None ''cantilever'')
                \<lparr>material := (material (example_problem 2 1 None ''cantilever''))
                                \<lparr>poisson_ratio := 1 / 2\<rparr>\<rparr>) = Inr s' \<and>
            calculate_stresses s' [0, 1] [3, - 4] =
              calculate_stresses (example_solver 2 1 None ''cantilever'') [0, 1] [3, - 4] \<and>
            calculate_strains s' [3 / 2, 2] [0, 0] =
              calculate_strains (example_solver 2 1 None ''cantilever'') [3 / 2, 2] [0, 0])"
  using stresses_and_strains [OF init_example_solver [of 2 1 None "''cantilever''"],
      where M = "[3, - 4]" and x = "[0, 1]" and bending_stress = "[3 / 2, 2]"
        and axial_stress = "[0, 0]" and nu' = "1 / 2"]
  by (auto simp add: example_problem_fields moment_of_inertia_def max_distance_from_neutral_def
      area_def example_problem_def new_BeamColumnProblem_def)

section \<open>Solvers that ignore the point loads (C10)\<close>

text \<open>
  C10. For the end conditions simply_supported and fixed_fixed, replacing the
  point-load list and the legacy field of a problem by any others leaves the result
  of \<open>solve\<close> unchanged: both solvers start from the shear \<open>q \<cdot> L\<close> and call the
  integrator on the whole grid.
\<close>

theorem point_loads_without_effect:
  assumes i: "init_BeamColumnSolver p = Inr s"
    and ec: "end_condition p = ''simply_supported'' \<or> end_condition p = ''fixed_fixed''"
  shows "\<exists>s'. init_BeamColumnSolver (p\<lparr>point_loads := pls, point_load := z\<rparr>) = Inr s' \<and>
              solve brentq fsolve odeint s' n = solve brentq fsolve odeint s n"
proof -
  note sp = init_fields(1)[OF i]
  let ?p' = "p\<lparr>point_loads := pls, point_load := z\<rparr>"
  let ?s' = "s\<lparr>self_problem := ?p', self_point_loads := pls\<rparr>"
  have "init_BeamColumnSolver ?p' = Inr ?s'" using i by (rule init_point_loads_update)
  moreover have "solve brentq fsolve odeint ?s' n = solve brentq fsolve odeint s n"
    using ec sp by (auto simp: solve_def bind_result_def split: sum.splits)
  ultimately show ?thesis by blast
qed

theorem point_loads_without_effect_witness:
  "(\<exists>s'. init_BeamColumnSolver
            ((example_problem 2 1 None ''simply_supported'')
               \<lparr>point_loads := [down 10 (1 / 2)], point_load := 5\<rparr>) = Inr s' \<and>
          solve brentq_secant fsolve_start odeint_rk4 s' 3 =
            solve brentq_secant fsolve_start odeint_rk4
              (example_solver 2 1 None ''simply_supported'') 3)
   \<and> (\<exists>s'. init_BeamColumnSolver
            ((example_problem 2 1 None ''fixed_fixed'')
               \<lparr>point_loads := [down 10 (1 / 2)], point_load := 5\<rparr>) = Inr s' \<and>
          solve brentq_secant fsolve_start odeint_rk4 s' 3 =
            solve brentq_secant fsolve_start odeint_rk4
              (example_solver 2 1 None ''fixed_fixed'') 3)"
  using
    point_loads_without_effect [OF init_example_solver [of 2 1 None "''simply_supported''"],
      where pls = "[down 10 (1 / 2)]" and z = 5 and brentq = brentq_secant
        and fsolve = fsolve_start and odeint = odeint_rk4 and n = 3]
    point_loads_without_effect [OF init_example_solver [of 2 1 None "''fixed_fixed''"],
      where pls = "[down 10 (1 / 2)]" and z = 5 and brentq = brentq_secant
        and fsolve = fsolve_start and odeint = odeint_rk4 and n = 3]
  by (simp add: example_problem_fields)

end
